theory Spec2Isabelle
  imports Main "HOL-Library.Word" "HOL-Library.Monad_Syntax"
begin

section \<open>Frame codec (src/uart/uart.py, class UARTProtocol)\<close>

text \<open>
  Bytes on the serial link are 8-bit words; a Python \<open>bytes\<close> value is a list of them.
  A \<open>UARTMessage\<close> carries the message type and id as Python integers (the dataclass does
  not restrict them; \<open>validate_message\<close> does) and the payload as bytes.
\<close>

type_synonym byte = "8 word"

record UARTMessage =
  msg_type :: int
  msg_id :: int
  payload :: "byte list"

text \<open>
  Exceptions are values. A \<open>DatabaseError\<close> records the constraint that SQLite
  reported, since the audit logger inspects the message text for the foreign-key case.
\<close>

datatype db_constraint = FOREIGN_KEY | UNIQUE | NOT_NULL

datatype py_error = ValueError | TypeError | AttributeError | DatabaseError db_constraint

text \<open>The values of the IntEnum \<open>MessageType\<close>.\<close>

definition ACK :: int where "ACK = 0"
definition GET_SENSOR_STATUS :: int where "GET_SENSOR_STATUS = 1"
definition SENSOR_STATE_CHANGE :: int where "SENSOR_STATE_CHANGE = 2"
definition RESTART :: int where "RESTART = 3"
definition ACTUATOR_MOVEMENT :: int where "ACTUATOR_MOVEMENT = 4"
definition LIGHT_MANAGEMENT :: int where "LIGHT_MANAGEMENT = 5"
definition BUTTON_PUSHED :: int where "BUTTON_PUSHED = 6"
definition ERROR_MSG :: int where "ERROR_MSG = 7"
definition DOOR_CONTROL :: int where "DOOR_CONTROL = 8"

text \<open>\<open>MessageType(v)\<close> succeeds exactly for the nine defined values.\<close>

definition is_message_type :: "int \<Rightarrow> bool" where
  "is_message_type v = (0 \<le> v \<and> v \<le> 8)"

definition START_BYTE :: byte where "START_BYTE = 0x7B"
definition END_BYTE :: byte where "END_BYTE = 0x7D"

definition payload_length :: "UARTMessage \<Rightarrow> nat" where
  "payload_length m = length (payload m)"

definition validate_message :: "UARTMessage \<Rightarrow> bool" where
  "validate_message m =
     (if \<not> (0 \<le> msg_id m \<and> msg_id m \<le> 99) then False
      else if payload_length m > 255 then False
      else if \<not> is_message_type (msg_type m) then False
      else True)"

definition encode_message :: "UARTMessage \<Rightarrow> py_error + byte list" where
  "encode_message m =
     (if \<not> validate_message m then Inl ValueError
      else Inr ([START_BYTE, word_of_int (msg_type m), word_of_int (msg_id m),
                 of_nat (payload_length m)]
                @ (if payload m \<noteq> [] then payload m else [])
                @ [END_BYTE]))"

definition validate_frame :: "byte list \<Rightarrow> bool" where
  "validate_frame frame =
     (if length frame < 5 then False
      else if frame ! 0 \<noteq> START_BYTE then False
      else if last frame \<noteq> END_BYTE then False
      else if length frame \<noteq> 5 + unat (frame ! 3) then False
      else True)"

definition decode_frame :: "byte list \<Rightarrow> UARTMessage option" where
  "decode_frame frame =
     (if \<not> validate_frame frame then None
      else if \<not> is_message_type (uint (frame ! 1)) then None
      else
        let pl = unat (frame ! 3) in
        Some \<lparr> msg_type = uint (frame ! 1),
               msg_id = uint (frame ! 2),
               payload = (if pl > 0 then take pl (drop 4 frame) else []) \<rparr>)"

definition create_ack :: "UARTMessage \<Rightarrow> UARTMessage" where
  "create_ack original_msg =
     \<lparr> msg_type = ACK, msg_id = 0,
       payload = [word_of_int (msg_type original_msg), word_of_int (msg_id original_msg)] \<rparr>"

section \<open>Time stamps\<close>

text \<open>
  A Python \<open>datetime\<close> is either naive or timezone-aware (here always UTC); either way it
  denotes a number of microseconds since the Unix epoch. Ordering a naive against an aware
  value raises \<open>TypeError\<close>. \<open>datetime.now(timezone.utc)\<close> is \<open>Aware now\<close> and
  \<open>datetime.utcnow()\<close> is \<open>Naive now\<close>, where \<open>now\<close> is the reading of the clock.
  The store keeps time stamps as ISO-8601 text and parses them back with
  \<open>fromisoformat\<close>; the model keeps the \<open>datetime\<close> itself in the column, and SQL
  comparisons of such columns compare the instants.
\<close>

datatype pydatetime = Naive int | Aware int

fun instant :: "pydatetime \<Rightarrow> int" where
  "instant (Naive t) = t"
| "instant (Aware t) = t"

fun dt_less :: "pydatetime \<Rightarrow> pydatetime \<Rightarrow> py_error + bool" where
  "dt_less (Naive a) (Naive b) = Inr (a < b)"
| "dt_less (Aware a) (Aware b) = Inr (a < b)"
| "dt_less _ _ = Inl TypeError"

text \<open>
  Decimal rendering, used where the source formats a value into a description text.
  \<open>isoformat\<close> and \<open>uuid4_str\<close> stand for the library's \<open>datetime.isoformat()\<close> and
  \<open>str(uuid4())\<close>: the n-th identifier drawn in a run is \<open>uuid4_str n\<close>.
\<close>

fun digits :: "nat \<Rightarrow> string" where
  "digits n =
     (if n < 10 then [char_of (48 + n)]
      else digits (n div 10) @ [char_of (48 + n mod 10)])"

definition int_str :: "int \<Rightarrow> string" where
  "int_str i = (if i < 0 then CHR ''-'' # digits (nat (- i)) else digits (nat i))"

fun isoformat :: "pydatetime \<Rightarrow> string" where
  "isoformat (Naive t) = int_str t"
| "isoformat (Aware t) = int_str t @ ''+00:00''"

definition uuid4_str :: "nat \<Rightarrow> string" where
  "uuid4_str n = ''uuid4-'' @ digits n"

section \<open>Persistent store (src/database/models.py, crud.py, connection.py)\<close>

datatype LogType = ERROR | INFO | RETURN_VALID | RETURN_INVALID

record Container =
  c_id :: string
  qr_code :: string
  is_returnable :: bool
  due_date :: "pydatetime option"
  updated_at :: pydatetime

record DeviceStatus =
  last_sync_at :: pydatetime
  last_seen_at :: pydatetime
  version :: string
  update_failures :: int
  active :: bool
  is_in_safe_mode :: bool

record AuditLog =
  log_id :: string
  log_type :: LogType
  description :: string
  is_offline_action :: bool
  container_id :: "string option"
  created_at :: pydatetime

record ContainerCreate =
  cc_qr_code :: string
  cc_is_returnable :: bool
  cc_due_date :: "pydatetime option"

record DeviceStatusUpdate =
  u_last_sync_at :: "pydatetime option"
  u_last_seen_at :: "pydatetime option"
  u_version :: "string option"
  u_update_failures :: "int option"
  u_active :: "bool option"
  u_is_in_safe_mode :: "bool option"

definition no_update :: DeviceStatusUpdate where
  "no_update = \<lparr> u_last_sync_at = None, u_last_seen_at = None, u_version = None,
                  u_update_failures = None, u_active = None, u_is_in_safe_mode = None \<rparr>"

record AuditLogCreate =
  al_type :: LogType
  al_description :: string
  al_is_offline_action :: bool
  al_container_id :: "string option"

text \<open>
  The three tables. \<open>Container.id\<close> is the primary key and \<open>qrCode\<close> is UNIQUE;
  \<open>AuditLog.containerId\<close> references \<open>Container.id\<close> and foreign keys are enforced;
  \<open>DeviceStatus\<close> holds at most the row with id 1. \<open>uuid_count\<close> counts the
  identifiers drawn so far.
\<close>

record db =
  containers :: "Container list"
  device_status :: "DeviceStatus option"
  audit_logs :: "AuditLog list"
  uuid_count :: nat

subsection \<open>ContainerCRUD\<close>


text \<open>The identifier that the next insert of an audit log draws is not in use.\<close>

definition fresh_uuid :: "db \<Rightarrow> bool" where
  "fresh_uuid d = (\<forall>l \<in> set (audit_logs d). log_id l \<noteq> uuid4_str (uuid_count d))"

definition get_by_id :: "db \<Rightarrow> string \<Rightarrow> Container option" where
  "get_by_id d i = find (\<lambda>c. c_id c = i) (containers d)"

definition get_by_qr_code :: "db \<Rightarrow> string \<Rightarrow> Container option" where
  "get_by_qr_code d q = find (\<lambda>c. qr_code c = q) (containers d)"

text \<open>The INSERT of both \<open>create\<close> and \<open>create_with_id\<close>, with the table's constraints.\<close>

definition insert_container :: "db \<Rightarrow> Container \<Rightarrow> py_error + db" where
  "insert_container d row =
     (if \<exists>c \<in> set (containers d). c_id c = c_id row \<or> qr_code c = qr_code row
      then Inl (DatabaseError UNIQUE)
      else Inr (d\<lparr>containers := containers d @ [row]\<rparr>))"

definition create :: "db \<Rightarrow> int \<Rightarrow> ContainerCreate \<Rightarrow> py_error + (Container option \<times> db)" where
  "create d now container_data =
     (let cid = uuid4_str (uuid_count d);
          d1 = d\<lparr>uuid_count := Suc (uuid_count d)\<rparr>
      in case insert_container d1
                \<lparr> c_id = cid, qr_code = cc_qr_code container_data,
                  is_returnable = cc_is_returnable container_data,
                  due_date = cc_due_date container_data, updated_at = Naive now \<rparr> of
           Inl e \<Rightarrow> Inl e
         | Inr d2 \<Rightarrow> Inr (get_by_id d2 cid, d2))"

definition create_with_id ::
  "db \<Rightarrow> int \<Rightarrow> string \<Rightarrow> ContainerCreate \<Rightarrow> py_error + (Container option \<times> db)" where
  "create_with_id d now cid container_data =
     (case insert_container d
                \<lparr> c_id = cid, qr_code = cc_qr_code container_data,
                  is_returnable = cc_is_returnable container_data,
                  due_date = cc_due_date container_data, updated_at = Naive now \<rparr> of
           Inl e \<Rightarrow> Inl e
         | Inr d2 \<Rightarrow> Inr (get_by_id d2 cid, d2))"

text \<open>
  The \<open>updates\<close> dictionary of \<open>ContainerCRUD.update\<close>, as the list of its items with the
  value typed by the key: \<open>due_date\<close> (a datetime or \<open>None\<close>), \<open>is_returnable\<close>,
  \<open>qr_code\<close>, \<open>updatedAt\<close>, and any other key, which the method ignores.
\<close>

datatype update_item =
    Due_date "pydatetime option"
  | Is_returnable bool
  | Qr_code string
  | UpdatedAt pydatetime
  | Other_key string

fun is_updatedAt :: "update_item \<Rightarrow> bool" where
  "is_updatedAt (UpdatedAt _) = True"
| "is_updatedAt _ = False"

text \<open>\<open>updates["updatedAt"] = v\<close>: replaces the item in place, or appends it.\<close>

definition set_updatedAt :: "pydatetime \<Rightarrow> update_item list \<Rightarrow> update_item list" where
  "set_updatedAt v updates =
     (if \<exists>u \<in> set updates. is_updatedAt u
      then map (\<lambda>u. if is_updatedAt u then UpdatedAt v else u) updates
      else updates @ [UpdatedAt v])"

text \<open>
  The loop that builds the SET clauses: an item yields a clause when its key is one of
  the four known ones (and, for \<open>due_date\<close>, its value is truthy); a clause overwrites
  one column of the row.
\<close>

fun sets_column :: "update_item \<Rightarrow> bool" where
  "sets_column (Due_date v) = (v \<noteq> None)"
| "sets_column (Is_returnable v) = True"
| "sets_column (Qr_code v) = True"
| "sets_column (UpdatedAt v) = True"
| "sets_column (Other_key k) = False"

fun apply_clause :: "update_item \<Rightarrow> Container \<Rightarrow> Container" where
  "apply_clause (Due_date v) row = row\<lparr>due_date := v\<rparr>"
| "apply_clause (Is_returnable v) row = row\<lparr>is_returnable := v\<rparr>"
| "apply_clause (Qr_code v) row = row\<lparr>qr_code := v\<rparr>"
| "apply_clause (UpdatedAt v) row = row\<lparr>updated_at := v\<rparr>"
| "apply_clause (Other_key k) row = row"

text \<open>
  \<open>UPDATE Container SET ... WHERE id = :id\<close> inside a transaction: no row matched gives
  \<open>None\<close>; a row whose new \<open>qrCode\<close> is held by another row violates UNIQUE, the
  transaction is rolled back and \<open>DatabaseError\<close> is raised.
\<close>

definition update ::
  "db \<Rightarrow> int \<Rightarrow> string \<Rightarrow> update_item list \<Rightarrow> py_error + (Container option \<times> db)" where
  "update d now cid updates =
     (if updates = [] then Inr (get_by_id d cid, d)
      else
        let updates1 = set_updatedAt (Naive now) updates;
            set_clauses = filter sets_column updates1
        in if set_clauses = [] then Inr (get_by_id d cid, d)
           else
             case get_by_id d cid of
               None \<Rightarrow> Inr (None, d)
             | Some row \<Rightarrow>
                 (let row1 = fold apply_clause set_clauses row in
                  if \<exists>c \<in> set (containers d). c_id c \<noteq> cid \<and> qr_code c = qr_code row1
                  then Inl (DatabaseError UNIQUE)
                  else
                    let d1 = d\<lparr>containers :=
                                map (\<lambda>c. if c_id c = cid then row1 else c) (containers d)\<rparr>
                    in Inr (get_by_id d1 cid, d1)))"

text \<open>\<open>ORDER BY col DESC\<close>: the rows by decreasing instant.\<close>

definition order_desc :: "('a \<Rightarrow> pydatetime) \<Rightarrow> 'a list \<Rightarrow> 'a list" where
  "order_desc col rows = rev (sort_key (\<lambda>r. instant (col r)) rows)"

definition get_since :: "db \<Rightarrow> pydatetime \<Rightarrow> Container list" where
  "get_since d since =
     order_desc updated_at
       (filter (\<lambda>c. instant (updated_at c) > instant since) (containers d))"

text \<open>\<open>DELETE FROM Container\<close> fails while an audit log still references a container.\<close>

definition containers_delete_all :: "db \<Rightarrow> py_error + (bool \<times> db)" where
  "containers_delete_all d =
     (if \<exists>l \<in> set (audit_logs d). \<exists>c \<in> set (containers d). container_id l = Some (c_id c)
      then Inl (DatabaseError FOREIGN_KEY)
      else Inr (True, d\<lparr>containers := []\<rparr>))"

subsection \<open>DeviceStatusCRUD\<close>

definition get_status :: "db \<Rightarrow> DeviceStatus option" where
  "get_status d = device_status d"

text \<open>
  Each field of the update that passes its test yields one SET clause; the test is
  truthiness for the time stamps and the version, and \<open>is not None\<close> for the others.
\<close>

definition status_clauses :: "DeviceStatusUpdate \<Rightarrow> nat" where
  "status_clauses u =
     (if u_last_sync_at u \<noteq> None then 1 else 0)
   + (if u_last_seen_at u \<noteq> None then 1 else 0)
   + (if u_version u \<noteq> None \<and> u_version u \<noteq> Some [] then 1 else 0)
   + (if u_update_failures u \<noteq> None then 1 else 0)
   + (if u_active u \<noteq> None then 1 else 0)
   + (if u_is_in_safe_mode u \<noteq> None then 1 else 0)"

definition apply_status_update :: "DeviceStatusUpdate \<Rightarrow> DeviceStatus \<Rightarrow> DeviceStatus" where
  "apply_status_update u row =
     row\<lparr> last_sync_at := (case u_last_sync_at u of Some v \<Rightarrow> v | None \<Rightarrow> last_sync_at row),
          last_seen_at := (case u_last_seen_at u of Some v \<Rightarrow> v | None \<Rightarrow> last_seen_at row),
          version := (case u_version u of
                        Some v \<Rightarrow> (if v \<noteq> [] then v else version row)
                      | None \<Rightarrow> version row),
          update_failures := (case u_update_failures u of
                                Some v \<Rightarrow> v | None \<Rightarrow> update_failures row),
          active := (case u_active u of Some v \<Rightarrow> v | None \<Rightarrow> active row),
          is_in_safe_mode := (case u_is_in_safe_mode u of
                                Some v \<Rightarrow> v | None \<Rightarrow> is_in_safe_mode row) \<rparr>"

definition update_status :: "db \<Rightarrow> DeviceStatusUpdate \<Rightarrow> DeviceStatus option \<times> db" where
  "update_status d updates =
     (if status_clauses updates = 0 then (get_status d, d)
      else
        let d1 = d\<lparr>device_status := map_option (apply_status_update updates) (device_status d)\<rparr>
        in (get_status d1, d1))"

subsection \<open>AuditLogCRUD\<close>

definition create_log :: "db \<Rightarrow> int \<Rightarrow> AuditLogCreate \<Rightarrow> py_error + (AuditLog option \<times> db)" where
  "create_log d now log_data =
     (let new_id = uuid4_str (uuid_count d);
          d1 = d\<lparr>uuid_count := Suc (uuid_count d)\<rparr>
      in if \<exists>l \<in> set (audit_logs d1). log_id l = new_id then Inl (DatabaseError UNIQUE)
         else if (case al_container_id log_data of
                    None \<Rightarrow> False
                  | Some c \<Rightarrow> \<not> (\<exists>r \<in> set (containers d1). c_id r = c))
         then Inl (DatabaseError FOREIGN_KEY)
         else
           let row = \<lparr> log_id = new_id, log_type = al_type log_data,
                       description = al_description log_data,
                       is_offline_action = al_is_offline_action log_data,
                       container_id = al_container_id log_data,
                       created_at = Naive now \<rparr>;
               d2 = d1\<lparr>audit_logs := audit_logs d1 @ [row]\<rparr>
           in Inr (find (\<lambda>l. log_id l = new_id) (audit_logs d2), d2))"

definition get_logs_since :: "db \<Rightarrow> pydatetime \<Rightarrow> AuditLog list" where
  "get_logs_since d since =
     order_desc created_at
       (filter (\<lambda>l. instant (created_at l) \<ge> instant since) (audit_logs d))"

definition delete_log :: "db \<Rightarrow> string \<Rightarrow> bool \<times> db" where
  "delete_log d i =
     (\<exists>l \<in> set (audit_logs d). log_id l = i,
      d\<lparr>audit_logs := filter (\<lambda>l. log_id l \<noteq> i) (audit_logs d)\<rparr>)"

definition audit_logs_delete_all :: "db \<Rightarrow> bool \<times> db" where
  "audit_logs_delete_all d = (True, d\<lparr>audit_logs := []\<rparr>)"

section \<open>Audit logger (src/audit/logger.py)\<close>

text \<open>
  \<open>_log_to_database\<close> writes one row. When the insert fails on the foreign key and a
  container id was given, it retries once without the reference and with the
  description annotated; any other failure is only reported to the process log, which
  the model does not keep.
\<close>

definition log_to_database ::
  "db \<Rightarrow> int \<Rightarrow> LogType \<Rightarrow> string \<Rightarrow> string option \<Rightarrow> bool \<Rightarrow> db" where
  "log_to_database d now lt descr cid is_offline =
     (case create_log d now \<lparr> al_type = lt, al_description = descr,
                              al_is_offline_action = is_offline, al_container_id = cid \<rparr> of
        Inr (_, d1) \<Rightarrow> d1
      | Inl e \<Rightarrow>
          (if e = DatabaseError FOREIGN_KEY \<and> cid \<noteq> None \<and> cid \<noteq> Some [] then
             (case create_log d now
                     \<lparr> al_type = lt,
                       al_description = descr @ '' (Container ID: '' @ the cid
                                          @ '' - not found in DB)'',
                       al_is_offline_action = is_offline, al_container_id = None \<rparr> of
                Inr (_, d1) \<Rightarrow> d1
              | Inl _ \<Rightarrow> d)
           else d))"

definition log_return_valid :: "db \<Rightarrow> int \<Rightarrow> string \<Rightarrow> string \<Rightarrow> bool \<Rightarrow> db" where
  "log_return_valid d now cid descr is_offline =
     log_to_database d now RETURN_VALID descr (Some cid) is_offline"

definition log_return_invalid :: "db \<Rightarrow> int \<Rightarrow> string \<Rightarrow> string \<Rightarrow> bool \<Rightarrow> db" where
  "log_return_invalid d now cid descr is_offline =
     log_to_database d now RETURN_INVALID descr (Some cid) is_offline"

definition log_error :: "db \<Rightarrow> int \<Rightarrow> string \<Rightarrow> db" where
  "log_error d now descr = log_to_database d now ERROR descr None False"

text \<open>The \<open>details\<close> dictionary is rendered as Python prints a dictionary of strings.\<close>

fun dict_items :: "(string \<times> string) list \<Rightarrow> string" where
  "dict_items [] = []"
| "dict_items [(k, v)] = [CHR 0x27] @ k @ [CHR 0x27] @ '': '' @ [CHR 0x27] @ v @ [CHR 0x27]"
| "dict_items ((k, v) # kvs) =
     [CHR 0x27] @ k @ [CHR 0x27] @ '': '' @ [CHR 0x27] @ v @ [CHR 0x27] @ '', ''
     @ dict_items kvs"

definition log_security_event ::
  "db \<Rightarrow> int \<Rightarrow> string \<Rightarrow> string \<Rightarrow> (string \<times> string) list \<Rightarrow> db" where
  "log_security_event d now event_type descr details =
     (let detail_str = (if details \<noteq> [] then '' - Details: {'' @ dict_items details @ ''}''
                        else [])
      in log_error d now (''Security Event ['' @ event_type @ '']: '' @ descr @ detail_str))"

section \<open>QR validator (src/qr/processor.py)\<close>

text \<open>
  The validator looks at the characters of a scanned text, so in this section a Python
  string is the list of its code points (\<open>pystr\<close>), of any size: the three readers of
  src/qr/scanner.py and src/main.py can deliver any text. \<open>cps\<close> gives the code points of
  a literal of the source.

  Three library operations depend on the character tables of Python (CPython 3.11):

  \<^item> \<open>str.strip\<close> removes the characters for which \<open>str.isspace\<close> holds: \<open>is_space\<close> lists
    all of them.
  \<^item> Under \<open>re.IGNORECASE\<close> a letter of the pattern also matches its other case, and in
    addition \<open>k\<close> matches U+212A (Kelvin sign) and \<open>s\<close> matches U+017F (long s); a class
    holding \<open>I\<close> also matches U+0130 and U+0131 (dotted capital and dotless small i).
    \<open>in_code_class\<close> and \<open>in_hash_class\<close> hold exactly for the characters that the two
    classes of the pattern match, \<open>ci_match\<close> for the characters that a literal character
    of the pattern matches.
  \<^item> \<open>str.upper\<close> is applied to the two matched groups and to Base32 text only. On the
    characters these can hold it maps the small ASCII letters to the capital ones,
    U+0131 to \<open>I\<close> and U+017F to \<open>S\<close>, and leaves the others (digits, capital letters,
    \<open>=\<close>, U+0130, U+212A) as they are. \<open>upper_char\<close> is this map; on every other
    character, where the source never calls it, it is the identity.
\<close>

type_synonym pystr = "nat list"

definition cps :: "string \<Rightarrow> pystr" where
  "cps s = map of_char s"

definition ascii_upper :: "nat \<Rightarrow> nat" where
  "ascii_upper c = (if 97 \<le> c \<and> c \<le> 122 then c - 32 else c)"

definition upper_char :: "nat \<Rightarrow> nat" where
  "upper_char c =
     (if 97 \<le> c \<and> c \<le> 122 then c - 32
      else if c = 0x131 then 73
      else if c = 0x17F then 83
      else c)"

definition upper :: "pystr \<Rightarrow> pystr" where
  "upper s = map upper_char s"

definition is_space :: "nat \<Rightarrow> bool" where
  "is_space c =
     ((9 \<le> c \<and> c \<le> 13) \<or> (28 \<le> c \<and> c \<le> 32) \<or> c = 0x85 \<or> c = 0xA0 \<or> c = 0x1680
      \<or> (0x2000 \<le> c \<and> c \<le> 0x200A) \<or> c = 0x2028 \<or> c = 0x2029 \<or> c = 0x202F
      \<or> c = 0x205F \<or> c = 0x3000)"

definition strip :: "pystr \<Rightarrow> pystr" where
  "strip s = rev (dropWhile is_space (rev (dropWhile is_space s)))"

datatype ValidationResult =
    VALID | INVALID_FORMAT | INVALID_LENGTH | INVALID_CHARACTERS
  | INVALID_URL_FORMAT | INVALID_HASH | FRAUD_ATTEMPT

fun validation_value :: "ValidationResult \<Rightarrow> string" where
  "validation_value VALID = ''valid''"
| "validation_value INVALID_FORMAT = ''invalid_format''"
| "validation_value INVALID_LENGTH = ''invalid_length''"
| "validation_value INVALID_CHARACTERS = ''invalid_characters''"
| "validation_value INVALID_URL_FORMAT = ''invalid_url_format''"
| "validation_value INVALID_HASH = ''invalid_hash''"
| "validation_value FRAUD_ATTEMPT = ''fraud_attempt''"

text \<open>
  The result of the validator. The scanned text, the container id and the parsed groups
  are texts of code points; the error message is one of the fixed ASCII texts of the
  source.
\<close>

record QRProcessingResult =
  scanned_qr_code :: pystr
  validation :: ValidationResult
  result_container_id :: "pystr option"
  error_message :: "string option"
  is_fraud_attempt :: bool
  parsed_url :: "(pystr \<times> pystr) option"

subsection \<open>The URL pattern\<close>

text \<open>
  \<open>url_pattern\<close> is the regular expression
  \<^verbatim>\<open>.*https?:\/\/paka\.eco\/QR\/([A-HJ-NP-Z2-9]{6})\/([A-Z0-9]{6})$\<close> compiled with
  IGNORECASE and applied with \<open>match\<close>. Everything after the leading \<^verbatim>\<open>.*\<close> has a
  fixed number of characters up to the optional \<open>s\<close>, and \<^verbatim>\<open>$\<close> fixes the end of the
  subject (or the position before one final newline), so the subject is cut from its
  end: six hash characters, a slash, six code characters, the literal
  \<^verbatim>\<open>://paka.eco/QR/\<close>, then \<open>https\<close> or \<open>http\<close>, and before that any characters
  except newline.
\<close>

definition in_code_class :: "nat \<Rightarrow> bool" where
  "in_code_class c =
     (let u = ascii_upper c
      in (65 \<le> u \<and> u \<le> 72) \<or> (74 \<le> u \<and> u \<le> 78) \<or> (80 \<le> u \<and> u \<le> 90)
         \<or> (50 \<le> u \<and> u \<le> 57) \<or> c = 0x17F \<or> c = 0x212A)"

definition in_hash_class :: "nat \<Rightarrow> bool" where
  "in_hash_class c =
     (let u = ascii_upper c
      in (65 \<le> u \<and> u \<le> 90) \<or> (48 \<le> u \<and> u \<le> 57)
         \<or> c = 0x130 \<or> c = 0x131 \<or> c = 0x17F \<or> c = 0x212A)"

text \<open>
  \<open>ci_match p c\<close>: the character \<open>p\<close> of the pattern (one of those of
  \<^verbatim>\<open>https://paka.eco/QR/\<close>) matches the character \<open>c\<close> of the subject.
\<close>

definition ci_match :: "nat \<Rightarrow> nat \<Rightarrow> bool" where
  "ci_match p c =
     (ascii_upper c = ascii_upper p
      \<or> (ascii_upper p = 75 \<and> c = 0x212A)
      \<or> (ascii_upper p = 83 \<and> c = 0x17F))"

definition ci_eq :: "pystr \<Rightarrow> string \<Rightarrow> bool" where
  "ci_eq s lit = list_all2 (\<lambda>c p. ci_match p c) s (cps lit)"

definition split_last :: "nat \<Rightarrow> 'a list \<Rightarrow> 'a list \<times> 'a list" where
  "split_last n xs = (take (length xs - n) xs, drop (length xs - n) xs)"

definition newline :: nat where "newline = 0x0A"

definition scheme_ok :: "pystr \<Rightarrow> bool" where
  "scheme_ok s =
     (let (p5, s5) = split_last 5 s; (p4, s4) = split_last 4 s
      in (ci_eq s5 ''https'' \<and> newline \<notin> set p5) \<or> (ci_eq s4 ''http'' \<and> newline \<notin> set p4))"

definition url_pattern_match :: "pystr \<Rightarrow> (pystr \<times> pystr) option" where
  "url_pattern_match subject =
     (let body = (if subject \<noteq> [] \<and> last subject = newline then butlast subject else subject);
          (r1, hash) = split_last 6 body;
          (r2, sep) = split_last 1 r1;
          (r3, code) = split_last 6 r2;
          (r4, lit) = split_last 15 r3
      in if length hash = 6 \<and> list_all in_hash_class hash \<and> sep = cps ''/''
            \<and> length code = 6 \<and> list_all in_code_class code
            \<and> ci_eq lit ''://paka.eco/QR/'' \<and> scheme_ok r4
         then Some (code, hash) else None)"

definition parse_scanned_url :: "pystr \<Rightarrow> (pystr \<times> pystr) option" where
  "parse_scanned_url url =
     (if url = [] then None
      else case url_pattern_match (strip url) of
             None \<Rightarrow> None
           | Some (code, hash) \<Rightarrow> Some (upper code, upper hash))"

subsection \<open>The expected hash\<close>

text \<open>
  \<open>base64.b32encode\<close> (RFC 4648): five bytes give eight characters of the alphabet
  A-Z2-7, a shorter last group is padded with \<open>=\<close>. \<open>str.encode('utf-8')\<close> gives one to
  four bytes for a code point and raises \<open>UnicodeEncodeError\<close> on a surrogate (\<open>None\<close>
  here; an environment variable can hold one). HMAC-SHA256 itself is the library's
  (\<open>hmac.new(key, msg, hashlib.sha256).digest()\<close>) and is a parameter \<open>H\<close> of the model:
  a function from key and message to the digest.
\<close>

definition b32_alphabet :: pystr where
  "b32_alphabet = cps ''ABCDEFGHIJKLMNOPQRSTUVWXYZ234567''"

definition quintet :: "byte \<Rightarrow> byte \<Rightarrow> byte \<Rightarrow> byte \<Rightarrow> byte \<Rightarrow> pystr" where
  "quintet a b c d e =
     (let n = unat a * 2 ^ 32 + unat b * 2 ^ 24 + unat c * 2 ^ 16 + unat d * 2 ^ 8 + unat e
      in map (\<lambda>i. b32_alphabet ! ((n div 32 ^ (7 - i)) mod 32)) [0..<8])"

fun b32encode :: "byte list \<Rightarrow> pystr" where
  "b32encode (a # b # c # d # e # rest) = quintet a b c d e @ b32encode rest"
| "b32encode [a, b, c, d] = take 7 (quintet a b c d 0) @ cps ''=''"
| "b32encode [a, b, c] = take 5 (quintet a b c 0 0) @ cps ''===''"
| "b32encode [a, b] = take 4 (quintet a b 0 0 0) @ cps ''====''"
| "b32encode [a] = take 2 (quintet a 0 0 0 0) @ cps ''======''"
| "b32encode [] = []"

definition encodable :: "nat \<Rightarrow> bool" where
  "encodable c = (c < 0xD800 \<or> (0xE000 \<le> c \<and> c < 0x110000))"

definition utf8_char :: "nat \<Rightarrow> byte list" where
  "utf8_char c =
     (if c < 0x80 then [of_nat c]
      else if c < 0x800 then [of_nat (0xC0 + c div 64), of_nat (0x80 + c mod 64)]
      else if c < 0x10000 then
        [of_nat (0xE0 + c div 4096), of_nat (0x80 + (c div 64) mod 64), of_nat (0x80 + c mod 64)]
      else
        [of_nat (0xF0 + c div 262144), of_nat (0x80 + (c div 4096) mod 64),
         of_nat (0x80 + (c div 64) mod 64), of_nat (0x80 + c mod 64)])"

definition utf8 :: "pystr \<Rightarrow> byte list option" where
  "utf8 s = (if list_all encodable s then Some (concat (map utf8_char s)) else None)"

type_synonym hmac_fn = "byte list \<Rightarrow> byte list \<Rightarrow> byte list"

definition hash_length :: nat where "hash_length = 6"

definition generate_hmac_hash :: "hmac_fn \<Rightarrow> pystr \<Rightarrow> pystr \<Rightarrow> pystr option" where
  "generate_hmac_hash H private_key code =
     do { key_bytes \<leftarrow> utf8 private_key;
          code_bytes \<leftarrow> utf8 code;
          let raw_digest = H key_bytes code_bytes;
              encoded = b32encode raw_digest
          in Some (upper (take hash_length encoded)) }"

subsection \<open>\<open>process_qr_code\<close>\<close>

text \<open>
  The processing time of the result is left out. The one statement inside the \<open>try\<close>
  that can raise is the encoding of the key; the \<open>except\<close> branch then builds a new
  result \<open>INVALID_FORMAT\<close>, whose message is \<open>Processing error: \<close> followed by the text of
  the exception, which is left out.
\<close>

definition process_qr_code :: "hmac_fn \<Rightarrow> pystr \<Rightarrow> pystr \<Rightarrow> QRProcessingResult" where
  "process_qr_code H private_key qr =
     (let qr1 = strip qr;
          parsed = parse_scanned_url qr1;
          result = \<lparr> scanned_qr_code = qr1, validation = INVALID_FORMAT,
                     result_container_id = None, error_message = None,
                     is_fraud_attempt = False, parsed_url = parsed \<rparr>
      in case parsed of
           None \<Rightarrow>
             result\<lparr> validation := FRAUD_ATTEMPT, is_fraud_attempt := True,
                     error_message :=
                       Some ''Invalid URL format. Expected: http://paka.eco/QR/[CODE]/[HASH]'' \<rparr>
         | Some (code, provided_hash) \<Rightarrow>
             (case generate_hmac_hash H private_key code of
                None \<Rightarrow>
                  \<lparr> scanned_qr_code = qr1, validation = INVALID_FORMAT,
                    result_container_id = None, error_message = Some ''Processing error: '',
                    is_fraud_attempt = False, parsed_url = None \<rparr>
              | Some expected_hash \<Rightarrow>
                  if provided_hash \<noteq> expected_hash then
                    result\<lparr> validation := FRAUD_ATTEMPT, is_fraud_attempt := True,
                            error_message :=
                              Some ''Invalid hash. The QR code may be corrupted or fraudulent'' \<rparr>
                  else
                    result\<lparr> validation := VALID, result_container_id := Some code \<rparr>))"

section \<open>Sync service (src/api/service.py)\<close>

text \<open>
  The backend is an input of the model. A response to \<open>sync\<close> either raises (transport
  error) or carries the \<open>success\<close> flag and the \<open>data\<close> list. Of each item the service
  reads \<open>id\<close> and \<open>qrCode\<close> (empty when missing), \<open>isReturnable\<close> (true when missing) and
  \<open>dueTime\<close>, which may be absent, null, not ISO-8601, or a time stamp. The request keeps
  the time stamps as they are instead of their \<open>strftime\<close> text.
\<close>

datatype due_time = DueAbsent | DueNull | DueInvalid | DueAt pydatetime

record sync_item =
  item_id :: string
  item_qrCode :: string
  item_isReturnable :: bool
  item_dueTime :: due_time

datatype sync_response = SyncRaises | SyncResponse bool "sync_item list"

record log_dict =
  ld_type :: LogType
  ld_description :: string
  ld_isOfflineAction :: bool
  ld_containerId :: "string option"
  ld_createdAt :: pydatetime

record container_dict =
  cd_id :: string
  cd_isReturnable :: bool
  cd_updatedAt :: pydatetime

record sync_request =
  req_logs :: "log_dict list"
  req_containers :: "container_dict list"

definition container_to_dict :: "Container \<Rightarrow> container_dict" where
  "container_to_dict c =
     \<lparr> cd_id = c_id c, cd_isReturnable = is_returnable c, cd_updatedAt = updated_at c \<rparr>"

definition log_to_dict :: "AuditLog \<Rightarrow> log_dict" where
  "log_to_dict l =
     \<lparr> ld_type = log_type l, ld_description = description l,
       ld_isOfflineAction = is_offline_action l, ld_containerId = container_id l,
       ld_createdAt = created_at l \<rparr>"

text \<open>
  \<open>_update_containers\<close>: delete all containers, then insert the items one by one, each
  insert in its own transaction. An exception is re-raised to the caller; what was
  committed before it stays. The result is the exception, if any, and the store.
\<close>

fun insert_items :: "db \<Rightarrow> int \<Rightarrow> sync_item list \<Rightarrow> py_error option \<times> db" where
  "insert_items d now [] = (None, d)"
| "insert_items d now (container_data # rest) =
     (case item_dueTime container_data of
        DueNull \<Rightarrow> (Some AttributeError, d)
      | due \<Rightarrow>
          (let due_date = (case due of DueAt t \<Rightarrow> Some t | _ \<Rightarrow> None)
           in if item_id container_data \<noteq> [] \<and> item_qrCode container_data \<noteq> [] then
                (case create_with_id d now (item_id container_data)
                        \<lparr> cc_qr_code = item_qrCode container_data,
                          cc_is_returnable = item_isReturnable container_data,
                          cc_due_date = due_date \<rparr> of
                   Inl e \<Rightarrow> (Some e, d)
                 | Inr (_, d1) \<Rightarrow> insert_items d1 now rest)
              else insert_items d now rest))"

definition update_containers :: "db \<Rightarrow> int \<Rightarrow> sync_item list \<Rightarrow> py_error option \<times> db" where
  "update_containers d now containers_data =
     (case containers_delete_all d of
        Inl e \<Rightarrow> (Some e, d)
      | Inr (_, d1) \<Rightarrow> insert_items d1 now containers_data)"

text \<open>
  \<open>_do_sync\<close>. \<open>t_capture\<close> is the clock reading taken for \<open>new_sync_time\<close>, before the
  store is read; \<open>t_write\<close> is the later reading used when the response is written
  back. The result is the request that was sent and the store afterwards.
\<close>

definition do_sync ::
  "(sync_request \<Rightarrow> sync_response) \<Rightarrow> db \<Rightarrow> int \<Rightarrow> int \<Rightarrow> sync_request \<times> db" where
  "do_sync client d t_capture t_write =
     (let old_last_sync_at = (case get_status d of
                                Some ds \<Rightarrow> last_sync_at ds
                              | None \<Rightarrow> Aware 0);
          new_sync_time = Aware t_capture;
          cs = get_since d old_last_sync_at;
          logs = get_logs_since d old_last_sync_at;
          containers_data = map container_to_dict cs;
          filtered_logs = filter (\<lambda>l. container_id l \<noteq> None) logs;
          logs_data = map log_to_dict filtered_logs;
          request = \<lparr> req_logs = logs_data, req_containers = containers_data \<rparr>
      in case client request of
           SyncRaises \<Rightarrow> (request, d)
         | SyncResponse success data \<Rightarrow>
             if success then
               (let d1 = fold (\<lambda>l d'. snd (delete_log d' (log_id l))) logs d
                in case update_containers d1 t_write data of
                     (Some e, d2) \<Rightarrow> (request, d2)
                   | (None, d2) \<Rightarrow>
                       (request,
                        snd (update_status d2 (no_update\<lparr>u_last_sync_at := Some new_sync_time\<rparr>))))
             else (request, d))"

text \<open>
  The part of the service object that the secure-mode watchdog uses: the last request it
  computed (\<open>None\<close> before the first evaluation), whether a callback is registered, and
  the arguments of the calls made to that callback so far.
\<close>

record APIService =
  last_secure_mode_status :: "bool option"
  has_secure_mode_callback :: bool
  secure_mode_calls :: "bool list"

definition SECURE_MODE_THRESHOLD :: int where
  "SECURE_MODE_THRESHOLD = 2 * 86400 * 1000000"

definition check_secure_mode :: "APIService \<Rightarrow> db \<Rightarrow> int \<Rightarrow> APIService \<times> db" where
  "check_secure_mode svc d now =
     (let status = get_status d;
          should_be_secure =
            (case status of
               None \<Rightarrow> False
             | Some ds \<Rightarrow>
                 (let last_seen = (case last_seen_at ds of
                                     Naive t \<Rightarrow> Aware t
                                   | Aware t \<Rightarrow> Aware t);
                      time_since_last_seen = now - instant last_seen
                  in time_since_last_seen > SECURE_MODE_THRESHOLD));
          current_secure_status = (case status of
                                     Some ds \<Rightarrow> is_in_safe_mode ds
                                   | None \<Rightarrow> False);
          d1 = (if current_secure_status \<noteq> should_be_secure
                then snd (update_status d (no_update\<lparr>u_is_in_safe_mode := Some should_be_secure\<rparr>))
                else d);
          svc1 = (if last_secure_mode_status svc \<noteq> None
                     \<and> last_secure_mode_status svc \<noteq> Some should_be_secure
                     \<and> has_secure_mode_callback svc
                  then svc\<lparr>secure_mode_calls := secure_mode_calls svc @ [should_be_secure]\<rparr>
                  else svc)
      in (svc1\<lparr>last_secure_mode_status := Some should_be_secure\<rparr>, d1))"

section \<open>Sequence engine: state and link layer (src/uart/uart.py, class UART)\<close>

text \<open>The values of the other IntEnums, as the bytes that \<open>struct.pack\<close> writes.\<close>

definition ActuatorType_COVER :: byte where "ActuatorType_COVER = 0x00"
definition ActuatorType_CONTAINER :: byte where "ActuatorType_CONTAINER = 0x01"
definition ActuatorAction_STORE :: byte where "ActuatorAction_STORE = 0x00"
definition ActuatorAction_OPEN :: byte where "ActuatorAction_OPEN = 0x01"
definition ActuatorAction_CLOSE :: byte where "ActuatorAction_CLOSE = 0x02"
definition LightPosition_CONTAINER :: byte where "LightPosition_CONTAINER = 0x00"
definition LightPosition_COVER :: byte where "LightPosition_COVER = 0x01"
definition WHITE_ON :: byte where "WHITE_ON = 0x00"
definition RED_ON :: byte where "RED_ON = 0x01"
definition GREEN_ON :: byte where "GREEN_ON = 0x02"
definition DISABLE_ALL :: byte where "DISABLE_ALL = 0x03"
definition STEADY :: byte where "STEADY = 0x00"
definition BLINKING :: byte where "BLINKING = 0x01"
definition SensorType_COVER :: byte where "SensorType_COVER = 0x00"
definition SensorType_CONTAINER :: byte where "SensorType_CONTAINER = 0x01"
definition NO_DETECTION :: byte where "NO_DETECTION = 0x00"
definition DETECTION :: byte where "DETECTION = 0x01"
definition BLOCK :: byte where "BLOCK = 0x00"
definition UNBLOCK :: byte where "UNBLOCK = 0x01"

text \<open>
  What the engine does to the outside is kept in a trace, in order: each frame written
  to the serial port, and the lines of the process log that mark the start of a
  sequence, a dropped event or a failed step. Other log lines are diagnostics and are
  left out.
\<close>

datatype level = LInfo | LWarning | LError

datatype event = Tx "byte list" | Log level string

text \<open>
  The answer of the backend to \<open>validate_container\<close>, as \<open>APIService.validate_container\<close>
  returns it: \<open>None\<close> when the call fails, raises or returns nothing, otherwise the
  \<open>data\<close> object, whose \<open>containerData\<close> may be missing or empty (\<open>None\<close> here). Of
  \<open>containerData\<close> the engine reads \<open>isReturnable\<close> (\<open>None\<close> when missing or null) and
  \<open>updatedAt\<close>.
\<close>

datatype ts_field = TsMissing | TsInvalid | TsAt pydatetime

record container_data =
  cdata_isReturnable :: "bool option"
  cdata_updatedAt :: ts_field

record validate_data =
  containerData :: "container_data option"

text \<open>
  The state of the engine and of what it is wired to. Time is counted in tenths of a
  second: \<open>clock\<close> is \<open>time.time()\<close>, \<open>time.sleep(0.1)\<close> adds one, and nothing else takes
  time. \<open>rx\<close> holds what the successive reads of the serial port return, \<open>scans\<close> what
  the QR reader hands over during the successive polls of the SEQ3 wait.
  \<open>device_inactive\<close> and \<open>device_secure_mode\<close> are the two flags of the application
  object (src/main.py) that the registered callback reads.
\<close>

record engine =
  connected :: bool
  rx :: "byte list list"
  message_id_counter :: int
  sensor_cover :: bool
  sensor_container :: bool
  waiting_for_ack :: bool
  last_ack_id :: "int option"
  waiting_for_qr :: bool
  qr_timeout_start :: "nat option"
  container_qr_code :: "pystr option"
  seq2_completed :: bool
  seq2_completion_time :: "nat option"
  seq3_completed :: bool
  seq3_completion_time :: "nat option"
  seq1_lights_active :: bool
  seq1_activation_time :: "nat option"
  seq4_in_progress :: bool
  has_inactive_callback :: bool
  device_inactive :: bool
  device_secure_mode :: bool
  has_db_manager :: bool
  store :: db
  api_service :: "(string \<Rightarrow> validate_data option) option"
  has_audit_logger :: bool
  qr_processor :: "(pystr \<Rightarrow> QRProcessingResult) option"
  scans :: "pystr option list"
  clock :: nat
  trace :: "event list"

definition emit :: "event \<Rightarrow> engine \<Rightarrow> engine" where
  "emit e s = s\<lparr>trace := trace s @ [e]\<rparr>"

definition sleep :: "nat \<Rightarrow> engine \<Rightarrow> engine" where
  "sleep n s = s\<lparr>clock := clock s + n\<rparr>"

text \<open>The clock as \<open>datetime\<close> reads it, in microseconds.\<close>

definition utc_now :: "engine \<Rightarrow> int" where
  "utc_now s = int (clock s) * 100000"

text \<open>
  \<open>_is_device_inactive\<close>: the callback registered by \<open>initialize_components\<close> is
  \<open>lambda: self.device_inactive or self.device_secure_mode\<close>.
\<close>

definition is_device_inactive :: "engine \<Rightarrow> bool" where
  "is_device_inactive s =
     (if has_inactive_callback s then device_inactive s \<or> device_secure_mode s else False)"

definition get_next_message_id :: "engine \<Rightarrow> int \<times> engine" where
  "get_next_message_id s =
     (let n = (message_id_counter s + 1) mod 100 in (n, s\<lparr>message_id_counter := n\<rparr>))"

text \<open>A write to an open port succeeds and reports the length of the frame.\<close>

definition send_message :: "int \<Rightarrow> byte list \<Rightarrow> engine \<Rightarrow> bool \<times> engine" where
  "send_message mt pl s =
     (if \<not> connected s then (False, s)
      else
        let (mid, s1) = get_next_message_id s
        in case encode_message \<lparr>msg_type = mt, msg_id = mid, payload = pl\<rparr> of
             Inl e \<Rightarrow> (False, s1)
           | Inr frame \<Rightarrow> (length frame > 0, emit (Tx frame) s1))"

definition send_ack :: "UARTMessage \<Rightarrow> engine \<Rightarrow> bool \<times> engine" where
  "send_ack original_message s =
     (if \<not> connected s then (False, s)
      else case encode_message (create_ack original_message) of
             Inl e \<Rightarrow> (False, s)
           | Inr frame \<Rightarrow> (length frame > 0, emit (Tx frame) s))"

text \<open>
  The frame extraction loop of \<open>receive_messages\<close>, on the bytes from position \<open>i\<close> on.
\<close>

fun extract_frames :: "byte list \<Rightarrow> UARTMessage list" where
  "extract_frames [] = []"
| "extract_frames (b # rest) =
     (if b = START_BYTE \<and> 4 < length (b # rest) then
        (let payload_length = unat (rest ! 2);
             frame_length = 5 + payload_length
         in if frame_length \<le> length (b # rest) then
              (case decode_frame (take frame_length (b # rest)) of
                 Some message \<Rightarrow> [message]
               | None \<Rightarrow> [])
              @ extract_frames (drop (4 + payload_length) rest)
            else [])
      else extract_frames rest)"

definition receive_messages :: "engine \<Rightarrow> UARTMessage list \<times> engine" where
  "receive_messages s =
     (if \<not> connected s then ([], s)
      else case rx s of
             [] \<Rightarrow> ([], s)
           | data # later \<Rightarrow> (extract_frames data, s\<lparr>rx := later\<rparr>))"

definition control_actuator :: "byte \<Rightarrow> byte \<Rightarrow> engine \<Rightarrow> bool \<times> engine" where
  "control_actuator actuator_type action s = send_message ACTUATOR_MOVEMENT [actuator_type, action] s"

definition control_light :: "byte \<Rightarrow> byte \<Rightarrow> byte \<Rightarrow> engine \<Rightarrow> bool \<times> engine" where
  "control_light position light_color light_type s =
     send_message LIGHT_MANAGEMENT [position, light_color, light_type] s"

definition control_door :: "byte \<Rightarrow> engine \<Rightarrow> bool \<times> engine" where
  "control_door action s = send_message DOOR_CONTROL [action] s"

definition turn_all_lights_off :: "engine \<Rightarrow> bool \<times> engine" where
  "turn_all_lights_off s =
     (let (r1, s1) = control_light LightPosition_CONTAINER DISABLE_ALL STEADY s;
          (r2, s2) = control_light LightPosition_COVER DISABLE_ALL STEADY s1
      in (r1 \<and> r2, s2))"

definition store_cover :: "engine \<Rightarrow> bool \<times> engine" where
  "store_cover = control_actuator ActuatorType_COVER ActuatorAction_STORE"
definition open_cover :: "engine \<Rightarrow> bool \<times> engine" where
  "open_cover = control_actuator ActuatorType_COVER ActuatorAction_OPEN"
definition store_container :: "engine \<Rightarrow> bool \<times> engine" where
  "store_container = control_actuator ActuatorType_CONTAINER ActuatorAction_STORE"
definition open_container :: "engine \<Rightarrow> bool \<times> engine" where
  "open_container = control_actuator ActuatorType_CONTAINER ActuatorAction_OPEN"

definition set_cover_light_white :: "engine \<Rightarrow> bool \<times> engine" where
  "set_cover_light_white = control_light LightPosition_COVER WHITE_ON STEADY"
definition set_cover_light_green :: "engine \<Rightarrow> bool \<times> engine" where
  "set_cover_light_green = control_light LightPosition_COVER GREEN_ON STEADY"
definition set_cover_light_red :: "engine \<Rightarrow> bool \<times> engine" where
  "set_cover_light_red = control_light LightPosition_COVER RED_ON STEADY"
definition set_container_light_white :: "engine \<Rightarrow> bool \<times> engine" where
  "set_container_light_white = control_light LightPosition_CONTAINER WHITE_ON STEADY"
definition set_container_light_green :: "engine \<Rightarrow> bool \<times> engine" where
  "set_container_light_green = control_light LightPosition_CONTAINER GREEN_ON STEADY"
definition set_container_light_red :: "engine \<Rightarrow> bool \<times> engine" where
  "set_container_light_red = control_light LightPosition_CONTAINER RED_ON STEADY"

definition set_error_state :: "engine \<Rightarrow> bool \<times> engine" where
  "set_error_state = set_container_light_red"

definition block_doors :: "engine \<Rightarrow> bool \<times> engine" where
  "block_doors = control_door BLOCK"
definition unblock_doors :: "engine \<Rightarrow> bool \<times> engine" where
  "unblock_doors = control_door UNBLOCK"

definition handle_ack :: "engine \<Rightarrow> UARTMessage \<Rightarrow> engine" where
  "handle_ack s message = s\<lparr>last_ack_id := Some (msg_id message), waiting_for_ack := False\<rparr>"

definition handle_error_message :: "engine \<Rightarrow> UARTMessage \<Rightarrow> engine" where
  "handle_error_message s message = snd (set_error_state s)"

definition handle_qr_scan :: "engine \<Rightarrow> pystr \<Rightarrow> engine" where
  "handle_qr_scan s qr =
     (if waiting_for_qr s then s\<lparr>container_qr_code := Some qr, waiting_for_qr := False\<rparr>
      else s)"

section \<open>Sequence engine: validation of a scanned container (SEQ3, decision policy)\<close>

text \<open>
  \<open>_update_local_container\<close>. \<open>cid\<close> is the \<open>id\<close> that \<open>_handle_server_response\<close> put
  into the data. The ISO text of the server's \<open>updatedAt\<close> is passed to the store as the
  \<open>updatedAt\<close> item. A \<open>DatabaseError\<close> is caught and only logged.
\<close>

definition update_local_container :: "engine \<Rightarrow> string \<Rightarrow> string \<Rightarrow> container_data \<Rightarrow> engine" where
  "update_local_container s qr cid cd =
     (if \<not> has_db_manager s then s
      else if cid = [] then s
      else
        let is_ret = cdata_isReturnable cd;
            upd_at = (case cdata_updatedAt cd of TsAt t \<Rightarrow> Some t | _ \<Rightarrow> None)
        in case get_by_qr_code (store s) qr of
             Some existing_container \<Rightarrow>
               (let updates =
                      (case is_ret of Some v \<Rightarrow> [Is_returnable v] | None \<Rightarrow> [])
                      @ (case upd_at of Some t \<Rightarrow> [UpdatedAt t] | None \<Rightarrow> [])
                in if updates \<noteq> [] then
                     (case update (store s) (utc_now s) (c_id existing_container) updates of
                        Inl e \<Rightarrow> s
                      | Inr (_, d1) \<Rightarrow> s\<lparr>store := d1\<rparr>)
                   else s)
           | None \<Rightarrow>
               (case create (store s) (utc_now s)
                       \<lparr> cc_qr_code = qr,
                         cc_is_returnable = (case is_ret of Some v \<Rightarrow> v | None \<Rightarrow> True),
                         cc_due_date = upd_at \<rparr> of
                  Inl e \<Rightarrow> s
                | Inr (_, d1) \<Rightarrow> s\<lparr>store := d1\<rparr>))"

definition validate_with_server :: "engine \<Rightarrow> string \<Rightarrow> validate_data option" where
  "validate_with_server s qr =
     (case api_service s of
        None \<Rightarrow> None
      | Some api \<Rightarrow>
          if \<not> has_db_manager s then None
          else case get_by_qr_code (store s) qr of
                 None \<Rightarrow> None
               | Some container \<Rightarrow> api (c_id container))"

text \<open>
  \<open>_handle_server_response\<close>. Reading \<open>container.id\<close> of a container that is not there
  raises, and the \<open>except\<close> returns \<open>False\<close>.
\<close>

definition handle_server_response :: "engine \<Rightarrow> string \<Rightarrow> validate_data \<Rightarrow> bool \<times> engine" where
  "handle_server_response s qr response =
     (let is_ret = (case containerData response of
                      Some cd \<Rightarrow> cdata_isReturnable cd = Some True
                    | None \<Rightarrow> False);
          container = get_by_qr_code (store s) qr
      in case (containerData response, container) of
           (Some cd, None) \<Rightarrow> (False, s)
         | (cdo, co) \<Rightarrow>
             (let s1 = (case (cdo, co) of
                          (Some cd, Some c) \<Rightarrow> update_local_container s qr (c_id c) cd
                        | _ \<Rightarrow> s)
              in if \<not> is_ret then
                   (if has_audit_logger s1 then
                      (case co of
                         None \<Rightarrow> (False, s1)
                       | Some c \<Rightarrow>
                           (False, s1\<lparr>store := log_return_invalid (store s1) (utc_now s1) (c_id c)
                                      (''Server rejection - QR: '' @ qr
                                       @ '', Reason: Container return not valid'') False\<rparr>))
                    else (False, s1))
                 else
                   (if has_audit_logger s1 then
                      (case co of
                         None \<Rightarrow> (False, s1)
                       | Some c \<Rightarrow>
                           (True, s1\<lparr>store := log_return_valid (store s1) (utc_now s1) (c_id c)
                                      (''Server acceptance - QR: '' @ qr) False\<rparr>))
                    else (True, s1))))"

text \<open>
  \<open>_handle_offline_fallback\<close>. The comparison of a naive due date with the aware
  current time raises \<open>TypeError\<close>; the \<open>except\<close> returns \<open>False\<close>.
\<close>

definition handle_offline_fallback :: "engine \<Rightarrow> string \<Rightarrow> bool \<times> engine" where
  "handle_offline_fallback s qr =
     (if \<not> has_db_manager s then (False, s)
      else case get_by_qr_code (store s) qr of
        None \<Rightarrow> (False, s)
      | Some container \<Rightarrow>
          if \<not> is_returnable container then
            (False,
             if has_audit_logger s then
               s\<lparr>store := log_return_invalid (store s) (utc_now s) (c_id container)
                     (''Offline validation failed - not returnable - QR: '' @ qr) True\<rparr>
             else s)
          else
            (case (case due_date container of
                     None \<Rightarrow> Inr False
                   | Some due \<Rightarrow> dt_less due (Aware (utc_now s))) of
               Inl e \<Rightarrow> (False, s)
             | Inr True \<Rightarrow>
                 (False,
                  if has_audit_logger s then
                    s\<lparr>store := log_return_invalid (store s) (utc_now s) (c_id container)
                          (''Offline validation failed - expired - QR: '' @ qr @ '', Due: ''
                           @ isoformat (the (due_date container))) True\<rparr>
                  else s)
             | Inr False \<Rightarrow>
                 (True,
                  if has_audit_logger s then
                    s\<lparr>store := log_return_valid (store s) (utc_now s) (c_id container)
                          (''Offline validation success - QR: '' @ qr) True\<rparr>
                  else s)))"

text \<open>
  \<open>_validate_container_qr\<close>. The scanned text and the container code of the validator
  are texts of code points. The store, the audit log and the decision functions above
  only compare, join and store a text, never look at its characters, and keep it as a
  \<open>string\<close>: the bytes of its UTF-8 encoding, one \<open>char\<close> for each byte, which is also
  what SQLite holds. \<open>stored_text\<close> takes a text of code points to that form (the
  readers decode strictly, so a scanned text holds no surrogate).
\<close>

definition stored_text :: "pystr \<Rightarrow> string" where
  "stored_text t = map (\<lambda>b. char_of (unat b)) (concat (map utf8_char t))"

definition validate_container_qr :: "engine \<Rightarrow> pystr \<Rightarrow> bool \<times> engine" where
  "validate_container_qr s qr =
     (case qr_processor s of
        None \<Rightarrow> (False, s)
      | Some process \<Rightarrow>
          (let qr_result = process qr in
           if is_fraud_attempt qr_result \<or> validation qr_result = FRAUD_ATTEMPT then
             (False,
              if has_audit_logger s then
                s\<lparr>store := log_security_event (store s) (utc_now s) ''fraud_attempt''
                      (''QR fraud attempt detected: ''
                       @ (case error_message qr_result of Some e \<Rightarrow> e | None \<Rightarrow> ''None''))
                      [(''qr_code'', stored_text qr),
                       (''validation_result'', validation_value (validation qr_result)),
                       (''error'', (case error_message qr_result of
                                      Some e \<Rightarrow> e | None \<Rightarrow> ''None''))]\<rparr>
              else s)
           else if validation qr_result \<noteq> VALID \<or> result_container_id qr_result = None
                   \<or> result_container_id qr_result = Some [] then (False, s)
           else
             let container_code = stored_text (the (result_container_id qr_result))
             in case validate_with_server s container_code of
                  Some server_response \<Rightarrow> handle_server_response s container_code server_response
                | None \<Rightarrow> handle_offline_fallback s container_code))"

section \<open>Sequence engine: the sequences\<close>

text \<open>
  A sequence step that waits for an acknowledgement calls \<open>wait_for_ack\<close>, which may
  itself run handlers and sequences. The sequences are therefore written over the
  waiting routine \<open>W\<close> they call (its arguments are the timeout in tenths of a second
  and the state), and \<open>wait_for_ack\<close> is defined below by recursion on the nesting
  depth. A run that exceeds the depth or an iteration budget has the value \<open>None\<close>.
  The \<open>except\<close> branches of the sequences have no counterpart: the link operations
  catch their own exceptions and return \<open>False\<close>.
\<close>

type_synonym waiter = "nat \<Rightarrow> engine \<Rightarrow> (bool \<times> engine) option"

text \<open>
  Every command step of every sequence has the same shape in the source: send the
  command and return \<open>False\<close> if the send failed; wait for the ACK with a timeout of
  5 seconds and return \<open>False\<close> if it timed out (each time after an error line in the
  log); otherwise go on with the rest of the sequence.
    \<^verbatim>\<open>if not self.command(): logger.error(...); return False\<close>
    \<^verbatim>\<open>if not self.wait_for_ack(timeout=5.0): logger.error(...); return False\<close>
  \<open>command_step\<close> is that shape; \<open>rest\<close> is the remainder of the sequence.
\<close>

definition command_step ::
  "waiter \<Rightarrow> (engine \<Rightarrow> bool \<times> engine) \<Rightarrow> string \<Rightarrow> string \<Rightarrow> engine
   \<Rightarrow> (engine \<Rightarrow> (bool \<times> engine) option) \<Rightarrow> (bool \<times> engine) option" where
  "command_step W command send_failed ack_timeout s rest =
     (let (sent, s1) = command s
      in if \<not> sent then Some (False, emit (Log LError send_failed) s1)
         else do {
           (acked, s2) \<leftarrow> W 50 s1;
           if \<not> acked then Some (False, emit (Log LError ack_timeout) s2)
           else rest s2
         })"

definition execute_sequence_1 :: "waiter \<Rightarrow> engine \<Rightarrow> (bool \<times> engine) option" where
  "execute_sequence_1 W s0 =
     command_step W unblock_doors
       ''Failed to send unblock doors command''
       ''Timeout waiting for ACK for unblock doors command''
       (emit (Log LInfo ''Starting SEQ1: Button Press Activation'') s0)
       (\<lambda>s. command_step W block_doors
          ''Failed to send block doors command''
          ''Timeout waiting for ACK for block doors command''
          (sleep 10 s)
          (\<lambda>s. command_step W set_cover_light_white
             ''Failed to send COVER white light command''
             ''Timeout waiting for ACK for COVER light command''
             s
             (\<lambda>s. command_step W set_container_light_white
                ''Failed to send CONTAINER white light command''
                ''Timeout waiting for ACK for CONTAINER light command''
                s
                (\<lambda>s. Some (True, s\<lparr>seq1_lights_active := True,
                                    seq1_activation_time := Some (clock s)\<rparr>)))))"

definition clear_seq1_lights :: "engine \<Rightarrow> engine" where
  "clear_seq1_lights s =
     (if seq1_lights_active s
      then s\<lparr>seq1_lights_active := False, seq1_activation_time := None\<rparr> else s)"

definition execute_sequence_2 :: "waiter \<Rightarrow> engine \<Rightarrow> (bool \<times> engine) option" where
  "execute_sequence_2 W s0 =
     command_step W set_cover_light_green
       ''Failed to send COVER green light command''
       ''Timeout waiting for ACK for COVER green light command''
       (clear_seq1_lights (emit (Log LInfo ''Starting SEQ2: Cover Detection and Storage'') s0))
       (\<lambda>s. Some (True, s\<lparr>seq2_completed := True, seq2_completion_time := Some (clock s)\<rparr>))"

definition handle_seq3_valid_qr :: "waiter \<Rightarrow> engine \<Rightarrow> (bool \<times> engine) option" where
  "handle_seq3_valid_qr W s0 =
     command_step W set_container_light_green
       ''Failed to set container light to green''
       ''Timeout waiting for ACK for green light''
       s0
       (\<lambda>s. Some (True, s\<lparr>seq3_completed := True, seq3_completion_time := Some (clock s)\<rparr>))"

definition handle_seq3_invalid_qr :: "waiter \<Rightarrow> engine \<Rightarrow> (bool \<times> engine) option" where
  "handle_seq3_invalid_qr W s0 =
     command_step W set_container_light_red
       ''Failed to set container light to red''
       ''Timeout waiting for ACK for red light''
       s0
       (\<lambda>s. Some (True, s\<lparr>seq3_completed := True, seq3_completion_time := Some (clock s)\<rparr>))"

text \<open>
  The QR wait of SEQ3 sleeps a tenth of a second at a time for at most 30 seconds while
  \<open>_waiting_for_qr\<close> is set. Serial frames are not read. During a sleep the QR reader
  may hand over a scan, which it does as \<open>handle_qr_scan\<close> does.
\<close>

definition scanner_poll :: "engine \<Rightarrow> engine" where
  "scanner_poll s =
     (case scans s of
        [] \<Rightarrow> s
      | None # later \<Rightarrow> s\<lparr>scans := later\<rparr>
      | Some qr # later \<Rightarrow> handle_qr_scan (s\<lparr>scans := later\<rparr>) qr)"

fun qr_wait :: "nat \<Rightarrow> nat \<Rightarrow> engine \<Rightarrow> engine option" where
  "qr_wait k start s =
     (if waiting_for_qr s \<and> clock s < start + 300 then
        (case k of
           0 \<Rightarrow> None
         | Suc k' \<Rightarrow> qr_wait k' start (scanner_poll (sleep 1 s)))
      else Some s)"

definition execute_sequence_3 :: "waiter \<Rightarrow> engine \<Rightarrow> (bool \<times> engine) option" where
  "execute_sequence_3 W s0 =
     (let s = emit (Log LInfo ''Starting SEQ3: Container Detection and QR Validation'') s0;
          s = clear_seq1_lights s;
          s = s\<lparr>waiting_for_qr := True, qr_timeout_start := Some (clock s),
                container_qr_code := None\<rparr>
      in do {
           s \<leftarrow> qr_wait 300 (clock s) s;
           if container_qr_code s = None \<or> container_qr_code s = Some []
           then handle_seq3_invalid_qr W
                  (emit (Log LError ''QR scan timeout - no QR code received'') s)
           else
             let (validation_result, s) = validate_container_qr s (the (container_qr_code s))
             in if validation_result then handle_seq3_valid_qr W s
                else handle_seq3_invalid_qr W s
         })"

text \<open>
  The removal wait of SEQ4 (\<open>_wait_for_both_removals\<close>, 120 seconds). \<open>removal_message\<close>
  is the body of its \<open>for\<close> loop.
\<close>

definition removal_message :: "bool \<times> bool \<times> engine \<Rightarrow> UARTMessage \<Rightarrow> bool \<times> bool \<times> engine" where
  "removal_message st message =
     (let (cover_removed, container_removed, s) = st
      in if msg_type message = SENSOR_STATE_CHANGE \<and> length (payload message) \<ge> 2 then
           (let sensor_type = payload message ! 0;
                new_status = payload message ! 1
            in if sensor_type = SensorType_COVER \<and> new_status = NO_DETECTION then
                 (True, container_removed, snd (send_ack message (s\<lparr>sensor_cover := False\<rparr>)))
               else if sensor_type = SensorType_CONTAINER \<and> new_status = NO_DETECTION then
                 (cover_removed, True, snd (send_ack message (s\<lparr>sensor_container := False\<rparr>)))
               else (cover_removed, container_removed, snd (send_ack message s)))
         else if msg_type message \<noteq> ACK then
           (cover_removed, container_removed, snd (send_ack message s))
         else (cover_removed, container_removed, s))"

fun removal_loop :: "nat \<Rightarrow> nat \<Rightarrow> bool \<times> bool \<times> engine \<Rightarrow> (bool \<times> bool \<times> engine) option" where
  "removal_loop k start (cover_removed, container_removed, s) =
     (if (\<not> cover_removed \<or> \<not> container_removed) \<and> clock s < start + 1200 then
        (case k of
           0 \<Rightarrow> None
         | Suc k' \<Rightarrow>
             (let (messages, s1) = receive_messages s;
                  (cr, kr, s2) = foldl removal_message (cover_removed, container_removed, s1) messages
              in removal_loop k' start (cr, kr, sleep 1 s2)))
      else Some (cover_removed, container_removed, s))"

definition wait_for_both_removals :: "engine \<Rightarrow> (bool \<times> engine) option" where
  "wait_for_both_removals s =
     do {
       (cover_removed, container_removed, s1) \<leftarrow> removal_loop 1200 (clock s) (False, False, s);
       if \<not> cover_removed \<or> \<not> container_removed
       then Some (False,
                  emit (Log LError
                          ''Timeout waiting for complete removal - some items may be stuck'') s1)
       else Some (True, s1)
     }"

text \<open>SEQ4: the body of the \<open>try\<close>, then the \<open>finally\<close> that clears the guard.\<close>

definition sequence_4_body :: "waiter \<Rightarrow> engine \<Rightarrow> (bool \<times> engine) option" where
  "sequence_4_body W s0 =
     command_step W store_container
       ''Failed to send container store command''
       ''Timeout waiting for ACK for container store command''
       (emit (Log LInfo ''Starting SEQ4: Combined Cover and Container Storage'') s0)
       (\<lambda>s. command_step W store_cover
          ''Failed to send cover store command''
          ''Timeout waiting for ACK for cover store command''
          s
          (\<lambda>s. do {
             (removed, s) \<leftarrow> wait_for_both_removals s;
             if \<not> removed
             then Some (False, emit (Log LError ''Failed waiting for item removals'') s)
             else command_step W turn_all_lights_off
                    ''Failed to turn off all lights''
                    ''Timeout waiting for ACK for lights off''
                    s
                    (\<lambda>s. Some (True,
                                s\<lparr>seq2_completed := False, seq2_completion_time := None,
                                  seq3_completed := False, seq3_completion_time := None\<rparr>))
           }))"

definition execute_sequence_4 :: "waiter \<Rightarrow> engine \<Rightarrow> (bool \<times> engine) option" where
  "execute_sequence_4 W s =
     do {
       (r, s1) \<leftarrow> sequence_4_body W (s\<lparr>seq4_in_progress := True\<rparr>);
       Some (r, s1\<lparr>seq4_in_progress := False\<rparr>)
     }"

text \<open>The red warning light of SEQ5 for one bay whose sensor still detects an item.\<close>

definition warning_light ::
  "bool \<Rightarrow> (engine \<Rightarrow> bool \<times> engine) \<Rightarrow> string \<Rightarrow> string \<Rightarrow> engine \<Rightarrow> bool \<times> engine" where
  "warning_light detected set_red send_failed maintenance s =
     (if detected then
        (let (sent, s1) = set_red s
         in if \<not> sent then (False, emit (Log LError send_failed) s1)
            else (True, emit (Log LError maintenance) s1))
      else (False, s))"

definition execute_sequence_5 :: "waiter \<Rightarrow> engine \<Rightarrow> (bool \<times> engine) option" where
  "execute_sequence_5 W s0 =
     command_step W open_container
       ''Failed to open container actuator''
       ''Timeout waiting for ACK for container open''
       (emit (Log LInfo ''Starting SEQ5: Error Recovery'') s0)
       (\<lambda>s. command_step W open_cover
          ''Failed to open cover actuator''
          ''Timeout waiting for ACK for cover open''
          s
          (\<lambda>s.
             let s = sleep 20 s;
                 (w1, s) = warning_light (sensor_cover s) set_cover_light_red
                             ''Failed to set cover red warning light''
                             ''MAINTENANCE REQUIRED: Cover actuator appears to be jammed'' s;
                 (w2, s) = warning_light (sensor_container s) set_container_light_red
                             ''Failed to set container red warning light''
                             ''MAINTENANCE REQUIRED: Container actuator appears to be jammed'' s;
                 warning_sent = (w1 \<or> w2)
             in if warning_sent then do {
                  (acked, s) \<leftarrow> W 50 s;
                  if \<not> acked
                  then Some (False,
                             emit (Log LError ''Timeout waiting for ACK for warning lights'') s)
                  else Some (True, s)
                }
                else Some (True, s)))"

section \<open>Sequence engine: handlers, the acknowledgement wait and the dispatcher\<close>

definition handle_button_press :: "waiter \<Rightarrow> engine \<Rightarrow> UARTMessage \<Rightarrow> engine option" where
  "handle_button_press W s message =
     (if is_device_inactive s
      then Some (emit (Log LWarning ''Button press ignored - device is inactive'') s)
      else do { (r, s1) \<leftarrow> execute_sequence_1 W s; Some s1 })"

definition handle_sensor_change :: "waiter \<Rightarrow> engine \<Rightarrow> UARTMessage \<Rightarrow> engine option" where
  "handle_sensor_change W s message =
     (if length (payload message) \<ge> 2 then
        (let sensor_type = payload message ! 0;
             new_status = payload message ! 1
         in if is_device_inactive s
            then Some (emit (Log LWarning ''Sensor change ignored - device is inactive'') s)
            else
              let s1 = (if sensor_type = SensorType_COVER
                        then s\<lparr>sensor_cover := (new_status = DETECTION)\<rparr>
                        else if sensor_type = SensorType_CONTAINER
                        then s\<lparr>sensor_container := (new_status = DETECTION)\<rparr>
                        else s)
              in if sensor_type = SensorType_COVER \<and> new_status = DETECTION
                 then do { (r, s2) \<leftarrow> execute_sequence_2 W s1; Some s2 }
                 else if sensor_type = SensorType_CONTAINER \<and> new_status = DETECTION
                 then do { (r, s2) \<leftarrow> execute_sequence_3 W s1; Some s2 }
                 else Some s1)
      else Some (emit (Log LWarning ''Invalid sensor state change payload'') s))"

text \<open>A \<open>for\<close> loop over received messages whose body may run out of budget.\<close>

fun for_each :: "(engine \<Rightarrow> 'a \<Rightarrow> engine option) \<Rightarrow> 'a list \<Rightarrow> engine \<Rightarrow> engine option" where
  "for_each body [] s = Some s"
| "for_each body (x # xs) s = (case body s x of None \<Rightarrow> None | Some s1 \<Rightarrow> for_each body xs s1)"

text \<open>The body of the \<open>for\<close> loop of \<open>wait_for_ack\<close>.\<close>

definition wfa_message :: "waiter \<Rightarrow> engine \<Rightarrow> UARTMessage \<Rightarrow> engine option" where
  "wfa_message W s message =
     (if msg_type message = ACK then Some (handle_ack s message)
      else if msg_type message = SENSOR_STATE_CHANGE then
        do { s1 \<leftarrow> handle_sensor_change W s message; Some (snd (send_ack message s1)) }
      else if msg_type message = BUTTON_PUSHED then
        do { s1 \<leftarrow> handle_button_press W s message; Some (snd (send_ack message s1)) }
      else if msg_type message = ERROR_MSG then
        Some (snd (send_ack message (handle_error_message s message)))
      else Some (snd (send_ack message s)))"

text \<open>
  The \<open>while\<close> loop of \<open>wait_for_ack\<close>. Every iteration sleeps a tenth of a second, so
  \<open>k\<close> iterations are enough for a timeout of \<open>k\<close> tenths.
\<close>

fun wfa_loop :: "waiter \<Rightarrow> nat \<Rightarrow> nat \<Rightarrow> nat \<Rightarrow> engine \<Rightarrow> (bool \<times> engine) option" where
  "wfa_loop W k start timeout s =
     (if waiting_for_ack s \<and> clock s < start + timeout then
        (case k of
           0 \<Rightarrow> None
         | Suc k' \<Rightarrow>
             (let (messages, s1) = receive_messages s
              in case for_each (wfa_message W) messages s1 of
                   None \<Rightarrow> None
                 | Some s2 \<Rightarrow> wfa_loop W k' start timeout (sleep 1 s2)))
      else Some (\<not> waiting_for_ack s, s))"

definition wait_for_ack_body :: "waiter \<Rightarrow> nat \<Rightarrow> engine \<Rightarrow> (bool \<times> engine) option" where
  "wait_for_ack_body W timeout s =
     (let s1 = s\<lparr>waiting_for_ack := True, last_ack_id := None\<rparr>
      in wfa_loop W timeout (clock s1) timeout s1)"

text \<open>\<open>wait_for_ack n\<close> is \<open>wait_for_ack\<close> with at most \<open>n\<close> nested waits below it.\<close>

primrec wait_for_ack :: "nat \<Rightarrow> waiter" where
  "wait_for_ack 0 = (\<lambda>timeout s. None)"
| "wait_for_ack (Suc n) = wait_for_ack_body (wait_for_ack n)"

text \<open>\<open>_process_message\<close>, the top-level dispatch of one message.\<close>

definition process_message :: "waiter \<Rightarrow> engine \<Rightarrow> UARTMessage \<Rightarrow> engine option" where
  "process_message W s message =
     (let s1 = (if msg_type message \<noteq> ACK then
                  (let (success, s') = send_ack message s
                   in if \<not> success then emit (Log LError ''Failed to send ACK'') s' else s')
                else s)
      in if msg_type message = BUTTON_PUSHED then handle_button_press W s1 message
         else if msg_type message = SENSOR_STATE_CHANGE then handle_sensor_change W s1 message
         else if msg_type message = ERROR_MSG then Some (handle_error_message s1 message)
         else if msg_type message = ACK then Some (handle_ack s1 message)
         else Some (emit (Log LWarning ''No handler for message type'') s1))"

definition check_sequence_4_trigger :: "engine \<Rightarrow> bool" where
  "check_sequence_4_trigger s =
     (if seq4_in_progress s then False
      else
        let current_time = clock s;
            seq2_ready = (seq2_completed s
                          \<and> (case seq2_completion_time s of
                                None \<Rightarrow> False
                              | Some t \<Rightarrow> t \<noteq> 0 \<and> current_time > t + 1800));
            seq3_ready = (seq3_completed s
                          \<and> (case seq3_completion_time s of
                                None \<Rightarrow> False
                              | Some t \<Rightarrow> t \<noteq> 0 \<and> current_time > t + 1800))
        in seq2_ready \<or> seq3_ready)"

definition check_automatic_sequences :: "waiter \<Rightarrow> engine \<Rightarrow> engine option" where
  "check_automatic_sequences W s =
     (let s1 = (if seq1_lights_active s
                   \<and> (case seq1_activation_time s of
                         None \<Rightarrow> False
                       | Some t \<Rightarrow> t \<noteq> 0 \<and> clock s > t + 600)
                then (snd (turn_all_lights_off
                             (emit (Log LInfo ''SEQ1 timeout - turning off all lights'') s)))
                       \<lparr>seq1_lights_active := False, seq1_activation_time := None\<rparr>
                else s)
      in if check_sequence_4_trigger s1 then
           do {
             (success, s2) \<leftarrow> execute_sequence_4 W
                                (emit (Log LInfo ''Triggering SEQ4: Combined Storage'') s1);
             if success then
               (let s3 = sleep 10 s2
                in if sensor_cover s3 \<or> sensor_container s3
                   then do { (r, s4) \<leftarrow> execute_sequence_5 W s3; Some s4 }
                   else Some s3)
             else Some s2
           }
         else Some s1)"

text \<open>\<open>process_messages n\<close>: one tick of the dispatcher, with nesting depth \<open>n\<close>.\<close>

definition process_messages :: "nat \<Rightarrow> engine \<Rightarrow> engine option" where
  "process_messages n s =
     (let (messages, s1) = receive_messages s
      in case for_each (process_message (wait_for_ack n)) messages s1 of
           None \<Rightarrow> None
         | Some s2 \<Rightarrow> check_automatic_sequences (wait_for_ack n) s2)"

section \<open>Observations on the engine\<close>

text \<open>The frame that acknowledges a message: an ACK with id 0 and payload [type, id].\<close>

definition ack_frame :: "UARTMessage \<Rightarrow> byte list" where
  "ack_frame m = [0x7B, 0x00, 0x00, 0x02, word_of_int (msg_type m), word_of_int (msg_id m), 0x7D]"

text \<open>
  The log lines that only \<open>_check_automatic_sequences\<close> and the sequences it starts
  write: the SEQ1 light timeout and the starts of SEQ4 and SEQ5.
\<close>

definition automatic_event :: "event \<Rightarrow> bool" where
  "automatic_event e =
     (e = Log LInfo ''SEQ1 timeout - turning off all lights''
      \<or> e = Log LInfo ''Triggering SEQ4: Combined Storage''
      \<or> e = Log LInfo ''Starting SEQ4: Combined Cover and Container Storage''
      \<or> e = Log LInfo ''Starting SEQ5: Error Recovery'')"

text \<open>
  What a run may not change if it never enters the automatic-trigger evaluation: the
  automatic events logged so far, the SEQ4 guard, and whether the port is open.
\<close>

definition auto_view :: "engine \<Rightarrow> event list \<times> bool \<times> bool" where
  "auto_view s = (filter automatic_event (trace s), seq4_in_progress s, connected s)"

definition quiet_waiter :: "waiter \<Rightarrow> bool" where
  "quiet_waiter W = (\<forall>t s r s'. W t s = Some (r, s') \<longrightarrow> auto_view s' = auto_view s)"

section \<open>Concrete inputs for the scenarios\<close>

definition three_days :: int where "three_days = 3 * 86400 * 1000000"

definition status0 :: DeviceStatus where
  "status0 = \<lparr> last_sync_at = Aware 0, last_seen_at = Naive 0, version = ''1.0.0'',
               update_failures = 0, active = True, is_in_safe_mode = False \<rparr>"

definition db0 :: db where
  "db0 = \<lparr> containers = [], device_status = Some status0, audit_logs = [], uuid_count = 0 \<rparr>"

text \<open>A service object on which the watchdog has not run yet, and one on which it has.\<close>

definition fresh_service :: APIService where
  "fresh_service = \<lparr> last_secure_mode_status = None, has_secure_mode_callback = True,
                      secure_mode_calls = [] \<rparr>"

definition running_service :: APIService where
  "running_service = \<lparr> last_secure_mode_status = Some False, has_secure_mode_callback = True,
                        secure_mode_calls = [] \<rparr>"

text \<open>
  A store with one container and two audit logs written since the last sync: a system
  log without container reference and the log of a return.
\<close>

definition container1 :: Container where
  "container1 = \<lparr> c_id = ''c1'', qr_code = ''ABCDEF'', is_returnable = True,
                  due_date = None, updated_at = Naive 1 \<rparr>"

definition sync_db :: db where
  "sync_db =
     \<lparr> containers = [container1], device_status = Some status0,
       audit_logs =
         [\<lparr> log_id = ''l1'', log_type = INFO, description = ''Container Return System started'',
            is_offline_action = False, container_id = None, created_at = Naive 5 \<rparr>,
          \<lparr> log_id = ''l2'', log_type = RETURN_VALID,
            description = ''Offline validation success - QR: ABCDEF'',
            is_offline_action = True, container_id = Some ''c1'', created_at = Naive 6 \<rparr>],
       uuid_count = 0 \<rparr>"

definition sync_client :: "sync_request \<Rightarrow> sync_response" where
  "sync_client request =
     SyncResponse True [\<lparr> item_id = ''c1'', item_qrCode = ''ABCDEF'', item_isReturnable = True,
                          item_dueTime = DueAbsent \<rparr>]"

text \<open>
  An idle engine, wired as \<open>initialize_components\<close> wires it but without backend and QR
  processor, on a store that holds the one container.
\<close>

definition local_db :: db where
  "local_db = \<lparr> containers = [container1], device_status = Some status0, audit_logs = [],
                uuid_count = 0 \<rparr>"

definition idle :: engine where
  "idle = \<lparr> connected = True, rx = [], message_id_counter = 0,
     sensor_cover = False, sensor_container = False,
     waiting_for_ack = False, last_ack_id = None,
     waiting_for_qr = False, qr_timeout_start = None, container_qr_code = None,
     seq2_completed = False, seq2_completion_time = None,
     seq3_completed = False, seq3_completion_time = None,
     seq1_lights_active = False, seq1_activation_time = None,
     seq4_in_progress = False,
     has_inactive_callback = True, device_inactive = False, device_secure_mode = False,
     has_db_manager = True, store = local_db, api_service = None, has_audit_logger = True,
     qr_processor = None, scans = [], clock = 1000, trace = [] \<rparr>"

text \<open>
  The same engine on a store whose container has a due date without time zone, 100
  seconds after the clock of the engine.
\<close>

definition naive_due :: engine where
  "naive_due =
     idle\<lparr>store := local_db\<lparr>containers :=
                    [container1\<lparr>due_date := Some (Naive 200000000)\<rparr>]\<rparr>\<rparr>"

text \<open>
  The canonical URL of a code and a hash, the alphabet of codes (the letters and digits
  of the class \<^verbatim>\<open>[A-HJ-NP-Z2-9]\<close>), and one value of the library's HMAC-SHA256: the
  digest of the message \<open>ABCDEF\<close> under the key \<open>default_key\<close>.
\<close>


definition code_alphabet :: pystr where
  "code_alphabet = cps ''ABCDEFGHJKLMNPQRSTUVWXYZ23456789''"

definition url_prefix :: pystr where
  "url_prefix = cps ''https://paka.eco/QR/''"

definition construct_url :: "pystr \<Rightarrow> pystr \<Rightarrow> pystr" where
  "construct_url code hash = url_prefix @ code @ cps ''/'' @ hash"

definition digest_default_key_ABCDEF :: "byte list" where
  "digest_default_key_ABCDEF =
     [207, 226, 116, 23, 138, 96, 75, 223, 153, 242, 59, 225, 4, 29, 189, 252,
      231, 97, 24, 115, 221, 21, 96, 89, 127, 52, 116, 207, 254, 249, 81, 103]"

definition hmac_example :: hmac_fn where
  "hmac_example key msg = digest_default_key_ABCDEF"


text \<open>Frames as the microcontroller sends them: an error, a button press, an ACK.\<close>

definition error_frame :: "byte list" where
  "error_frame = [0x7B, 0x07, 0x05, 0x00, 0x7D]"

definition button_frame :: "byte list" where
  "button_frame = [0x7B, 0x06, 0x05, 0x00, 0x7D]"

definition mcu_ack_frame :: "byte list" where
  "mcu_ack_frame = [0x7B, 0x00, 0x01, 0x02, 0x08, 0x01, 0x7D]"

definition button_message :: UARTMessage where
  "button_message = \<lparr>msg_type = 6, msg_id = 5, payload = []\<rparr>"

definition error_message_5 :: UARTMessage where
  "error_message_5 = \<lparr>msg_type = 7, msg_id = 5, payload = []\<rparr>"

definition sensor_message :: UARTMessage where
  "sensor_message = \<lparr>msg_type = 2, msg_id = 9, payload = [0x01, 0x01]\<rparr>"


text \<open>The report of the cover sensor that it detects an item, as frame and as message.\<close>

definition cover_frame :: "byte list" where
  "cover_frame = [0x7B, 0x02, 0x09, 0x02, 0x00, 0x01, 0x7D]"

definition cover_message :: UARTMessage where
  "cover_message = \<lparr>msg_type = 2, msg_id = 9, payload = [0x00, 0x01]\<rparr>"

text \<open>An idle engine whose next \<open>k\<close> reads of the port each return one ACK.\<close>

definition acks :: "nat \<Rightarrow> engine" where
  "acks k = idle\<lparr>rx := replicate k mcu_ack_frame\<rparr>"

section \<open>Properties of the codec\<close>

lemmas message_type_defs =
  ACK_def GET_SENSOR_STATUS_def SENSOR_STATE_CHANGE_def RESTART_def ACTUATOR_MOVEMENT_def
  LIGHT_MANAGEMENT_def BUTTON_PUSHED_def ERROR_MSG_def DOOR_CONTROL_def

lemma uint_small_byte:
  fixes v :: int
  assumes "0 \<le> v" "v \<le> 255"
  shows "uint (word_of_int v :: byte) = v"
  using assms by (simp add: uint_word_of_int)

lemma unat_small_byte:
  fixes n :: nat
  assumes "n \<le> 255"
  shows "unat (of_nat n :: byte) = n"
  using assms by (simp add: unat_of_nat)

lemma encode_valid:
  assumes "validate_message m"
  shows "encode_message m =
           Inr ([START_BYTE, word_of_int (msg_type m), word_of_int (msg_id m),
                 of_nat (length (payload m))] @ payload m @ [END_BYTE])"
  using assms by (simp add: encode_message_def payload_length_def)

lemma decode_encoded:
  assumes "validate_message m"
  shows "decode_frame ([START_BYTE, word_of_int (msg_type m), word_of_int (msg_id m),
                 of_nat (length (payload m))] @ payload m @ [END_BYTE]) = Some m"
proof -
  from assms have ty: "0 \<le> msg_type m" "msg_type m \<le> 8"
    and idr: "0 \<le> msg_id m" "msg_id m \<le> 99"
    and len: "length (payload m) \<le> 255"
    by (auto simp: validate_message_def is_message_type_def payload_length_def
             split: if_splits)
  have t: "uint (word_of_int (msg_type m) :: byte) = msg_type m"
    using ty by (intro uint_small_byte) auto
  have i: "uint (word_of_int (msg_id m) :: byte) = msg_id m"
    using idr by (intro uint_small_byte) auto
  have l: "unat (of_nat (length (payload m)) :: byte) = length (payload m)"
    using len by (rule unat_small_byte)
  show ?thesis
    using ty t i l
    by (simp add: decode_frame_def validate_frame_def is_message_type_def Let_def)
qed

text \<open>
  Claim C3. Every message accepted by the encoder (type among the nine defined values, id
  in 0..99, payload of at most 255 bytes) is encoded to a frame of 5 + payload length
  bytes that starts with 0x7B, ends with 0x7D and decodes to the same message. The
  scenario of the specification: type 0x05, id 42, payload 01 02 00 encodes to
  7B 05 2A 03 01 02 00 7D, that frame decodes to the message, and with byte 0 changed to
  0x7A the decoder returns nothing.
\<close>

theorem codec_roundtrip:
  "(validate_message m \<longrightarrow>
      (\<exists>f. encode_message m = Inr f \<and> decode_frame f = Some m
          \<and> length f = 5 + length (payload m) \<and> f ! 0 = 0x7B \<and> last f = 0x7D))
   \<and> encode_message \<lparr>msg_type = 0x05, msg_id = 42, payload = [0x01, 0x02, 0x00]\<rparr>
       = Inr [0x7B, 0x05, 0x2A, 0x03, 0x01, 0x02, 0x00, 0x7D]
   \<and> decode_frame [0x7B, 0x05, 0x2A, 0x03, 0x01, 0x02, 0x00, 0x7D]
       = Some \<lparr>msg_type = 0x05, msg_id = 42, payload = [0x01, 0x02, 0x00]\<rparr>
   \<and> decode_frame [0x7A, 0x05, 0x2A, 0x03, 0x01, 0x02, 0x00, 0x7D] = None"
proof (intro conjI impI)
  assume v: "validate_message m"
  let ?f = "[START_BYTE, word_of_int (msg_type m), word_of_int (msg_id m),
             of_nat (length (payload m))] @ payload m @ [END_BYTE]"
  have "encode_message m = Inr ?f" by (rule encode_valid [OF v])
  moreover have "decode_frame ?f = Some m" by (rule decode_encoded [OF v])
  moreover have "length ?f = 5 + length (payload m)" by simp
  moreover have "?f ! 0 = 0x7B" by (simp add: START_BYTE_def)
  moreover have "last ?f = 0x7D" by (simp add: END_BYTE_def)
  ultimately show "\<exists>f. encode_message m = Inr f \<and> decode_frame f = Some m
          \<and> length f = 5 + length (payload m) \<and> f ! 0 = 0x7B \<and> last f = 0x7D"
    by blast
next
  show "encode_message \<lparr>msg_type = 0x05, msg_id = 42, payload = [0x01, 0x02, 0x00]\<rparr>
       = Inr [0x7B, 0x05, 0x2A, 0x03, 0x01, 0x02, 0x00, 0x7D]"
    by (simp add: encode_message_def validate_message_def payload_length_def
                  is_message_type_def START_BYTE_def END_BYTE_def)
next
  show "decode_frame [0x7B, 0x05, 0x2A, 0x03, 0x01, 0x02, 0x00, 0x7D]
       = Some \<lparr>msg_type = 0x05, msg_id = 42, payload = [0x01, 0x02, 0x00]\<rparr>"
    by (simp add: decode_frame_def validate_frame_def is_message_type_def
                  START_BYTE_def END_BYTE_def)
next
  show "decode_frame [0x7A, 0x05, 0x2A, 0x03, 0x01, 0x02, 0x00, 0x7D] = None"
    by (simp add: decode_frame_def validate_frame_def START_BYTE_def)
qed

theorem codec_roundtrip_witness:
  "validate_message \<lparr>msg_type = 0x08, msg_id = 99, payload = [0x01]\<rparr>
   \<and> encode_message \<lparr>msg_type = 0x08, msg_id = 99, payload = [0x01]\<rparr>
       = Inr [0x7B, 0x08, 0x63, 0x01, 0x01, 0x7D]
   \<and> decode_frame [0x7B, 0x08, 0x63, 0x01, 0x01, 0x7D]
       = Some \<lparr>msg_type = 0x08, msg_id = 99, payload = [0x01]\<rparr>"
proof -
  have v: "validate_message \<lparr>msg_type = 0x08, msg_id = 99, payload = [0x01]\<rparr>"
    by (simp add: validate_message_def payload_length_def is_message_type_def)
  have e: "encode_message \<lparr>msg_type = 0x08, msg_id = 99, payload = [0x01]\<rparr>
       = Inr [0x7B, 0x08, 0x63, 0x01, 0x01, 0x7D]"
    by (simp add: encode_message_def v payload_length_def START_BYTE_def END_BYTE_def)
  from codec_roundtrip [of "\<lparr>msg_type = 0x08, msg_id = 99, payload = [0x01]\<rparr>"] v
  obtain f where "encode_message \<lparr>msg_type = 0x08, msg_id = 99, payload = [0x01]\<rparr> = Inr f"
    and "decode_frame f = Some \<lparr>msg_type = 0x08, msg_id = 99, payload = [0x01]\<rparr>"
    by blast
  with e v show ?thesis by simp
qed


section \<open>Properties of the sync service\<close>

lemma update_status_safe_mode:
  "device_status d = Some ds \<Longrightarrow>
   update_status d (no_update\<lparr>u_is_in_safe_mode := Some b\<rparr>)
     = (Some (ds\<lparr>is_in_safe_mode := b\<rparr>), d\<lparr>device_status := Some (ds\<lparr>is_in_safe_mode := b\<rparr>)\<rparr>)"
  by (simp add: update_status_def status_clauses_def no_update_def apply_status_update_def
                get_status_def)

text \<open>
  Claim C9, as stated, fails on the first evaluation: with \<open>last_seen_at\<close> three days in the
  past and a callback registered, the first run of the watchdog persists
  \<open>is_in_safe_mode = true\<close> but makes no call to the callback, because
  \<open>_last_secure_mode_status\<close> is still \<open>None\<close>.
\<close>

theorem watchdog_first_evaluation_counterexample:
  "secure_mode_calls (fst (check_secure_mode fresh_service db0 three_days)) = []
   \<and> map_option is_in_safe_mode (device_status (snd (check_secure_mode fresh_service db0 three_days)))
       = Some True"
  by (simp add: check_secure_mode_def fresh_service_def db0_def status0_def three_days_def
        get_status_def SECURE_MODE_THRESHOLD_def update_status_def status_clauses_def
        no_update_def apply_status_update_def Let_def)

text \<open>
  Claim C9, amended. With a device status in the store, an evaluation of the watchdog
  requests secure mode iff \<open>now - last_seen_at\<close> exceeds two days (a naive \<open>last_seen_at\<close>
  is read as UTC) and normal mode otherwise; the store holds the requested flag
  afterwards (it is written when it differs from the stored one) and nothing else of the
  store changes; the request is remembered; and the callback is called, once and with the
  request, exactly when one is registered and the previous evaluation of this service
  object requested the opposite. The first evaluation never calls it.
\<close>

theorem secure_mode_watchdog:
  assumes "device_status d = Some ds"
  shows "check_secure_mode svc d now =
     (svc\<lparr> secure_mode_calls :=
              secure_mode_calls svc
              @ (if has_secure_mode_callback svc
                    \<and> last_secure_mode_status svc
                        = Some (\<not> (now - instant (last_seen_at ds) > SECURE_MODE_THRESHOLD))
                 then [now - instant (last_seen_at ds) > SECURE_MODE_THRESHOLD] else []),
            last_secure_mode_status :=
              Some (now - instant (last_seen_at ds) > SECURE_MODE_THRESHOLD) \<rparr>,
      d\<lparr> device_status :=
           Some (ds\<lparr>is_in_safe_mode := (now - instant (last_seen_at ds) > SECURE_MODE_THRESHOLD)\<rparr>) \<rparr>)"
proof -
  let ?req = "now - instant (last_seen_at ds) > SECURE_MODE_THRESHOLD"
  have i: "instant (case last_seen_at ds of Naive t \<Rightarrow> Aware t | Aware t \<Rightarrow> Aware t)
             = instant (last_seen_at ds)"
    by (cases "last_seen_at ds") simp_all
  have same: "is_in_safe_mode ds = ?req \<Longrightarrow>
      d = d\<lparr>device_status := Some (ds\<lparr>is_in_safe_mode := ?req\<rparr>)\<rparr>"
    using assms by (cases d) auto
  have opt: "\<And>x b. (x \<noteq> None \<and> x \<noteq> Some b) = (x = Some (\<not> b))"
    by (case_tac x) auto
  show ?thesis
    using assms same
    by (auto simp: check_secure_mode_def get_status_def Let_def i opt
                   update_status_safe_mode [OF assms])
qed

theorem secure_mode_watchdog_witness:
  "device_status db0 = Some status0
   \<and> secure_mode_calls (fst (check_secure_mode running_service db0 three_days)) = [True]
   \<and> last_secure_mode_status (fst (check_secure_mode running_service db0 three_days)) = Some True
   \<and> device_status (snd (check_secure_mode running_service db0 three_days))
       = Some (status0\<lparr>is_in_safe_mode := True\<rparr>)"
proof -
  have h: "device_status db0 = Some status0" by (simp add: db0_def)
  show ?thesis
    using h secure_mode_watchdog [OF h, of running_service three_days]
    by (simp add: running_service_def status0_def three_days_def SECURE_MODE_THRESHOLD_def)
qed

text \<open>
  Claim C8 at a failing input. The store holds a system log without container reference
  and the log of a return, both written since the last sync. The request carries only
  the second one; after the successful response both are gone, so the log that was never
  sent is deleted with the synced one.
\<close>

theorem sync_deletes_unsent_log:
  "map description (audit_logs sync_db)
     = [''Container Return System started'', ''Offline validation success - QR: ABCDEF'']
   \<and> map ld_description (req_logs (fst (do_sync sync_client sync_db 100 101)))
     = [''Offline validation success - QR: ABCDEF'']
   \<and> audit_logs (snd (do_sync sync_client sync_db 100 101)) = []
   \<and> map c_id (containers (snd (do_sync sync_client sync_db 100 101))) = [''c1'']
   \<and> map_option last_sync_at (device_status (snd (do_sync sync_client sync_db 100 101)))
     = Some (Aware 100)"
  by code_simp


section \<open>Properties of the store adapter\<close>



lemma find_Some_mem: "find P xs = Some x \<Longrightarrow> x \<in> set xs \<and> P x"
  by (induction xs) (auto split: if_splits)















section \<open>Properties of the offline fallback\<close>

lemma create_log_ok:
  assumes "fresh_uuid d" and "al_container_id a = Some c"
    and "\<exists>r \<in> set (containers d). c_id r = c"
  shows "\<exists>r. create_log d now a =
           Inr (r, d\<lparr>uuid_count := Suc (uuid_count d),
                    audit_logs := audit_logs d @
                      [\<lparr> log_id = uuid4_str (uuid_count d), log_type = al_type a,
                         description = al_description a,
                         is_offline_action = al_is_offline_action a,
                         container_id = al_container_id a, created_at = Naive now \<rparr>]\<rparr>)"
  using assms by (auto simp: create_log_def fresh_uuid_def Let_def)

lemma log_to_database_ok:
  assumes "fresh_uuid d" and "\<exists>r \<in> set (containers d). c_id r = c"
  shows "log_to_database d now lt descr (Some c) off =
           d\<lparr>uuid_count := Suc (uuid_count d),
             audit_logs := audit_logs d @
               [\<lparr> log_id = uuid4_str (uuid_count d), log_type = lt, description = descr,
                  is_offline_action = off, container_id = Some c, created_at = Naive now \<rparr>]\<rparr>"
proof -
  let ?a = "\<lparr> al_type = lt, al_description = descr, al_is_offline_action = off,
              al_container_id = Some c \<rparr>"
  from create_log_ok [of d ?a c now] assms
  obtain r where "create_log d now ?a =
           Inr (r, d\<lparr>uuid_count := Suc (uuid_count d),
                    audit_logs := audit_logs d @
                      [\<lparr> log_id = uuid4_str (uuid_count d), log_type = lt,
                         description = descr, is_offline_action = off,
                         container_id = Some c, created_at = Naive now \<rparr>]\<rparr>)"
    by auto
  then show ?thesis by (simp add: log_to_database_def)
qed

text \<open>
  Where the due date is absent or carries a time zone the fallback decides as follows,
  and for a container that is in the store it writes one audit entry, marked as an
  offline action, that refers to the container.
\<close>

lemma offline_fallback_aware:
  assumes db: "has_db_manager s"
  shows "(fst (handle_offline_fallback s qr)
           = (\<exists>c. get_by_qr_code (store s) qr = Some c \<and> is_returnable c
                 \<and> (due_date c = None \<or> (\<exists>t. due_date c = Some (Aware t) \<and> utc_now s \<le> t))))
    \<and> (get_by_qr_code (store s) qr = None \<longrightarrow> snd (handle_offline_fallback s qr) = s)
    \<and> (\<forall>c. has_audit_logger s \<and> fresh_uuid (store s) \<and> get_by_qr_code (store s) qr = Some c
         \<and> (\<forall>t. due_date c \<noteq> Some (Naive t)) \<longrightarrow>
           (\<exists>l. audit_logs (store (snd (handle_offline_fallback s qr))) = audit_logs (store s) @ [l]
               \<and> is_offline_action l \<and> container_id l = Some (c_id c)
               \<and> log_type l = (if fst (handle_offline_fallback s qr) then RETURN_VALID
                                else RETURN_INVALID)))"
proof (intro conjI allI)
  show "fst (handle_offline_fallback s qr)
           = (\<exists>c. get_by_qr_code (store s) qr = Some c \<and> is_returnable c
                 \<and> (due_date c = None \<or> (\<exists>t. due_date c = Some (Aware t) \<and> utc_now s \<le> t)))"
  proof (cases "get_by_qr_code (store s) qr")
    case None
    then show ?thesis using db by (simp add: handle_offline_fallback_def)
  next
    case (Some c)
    show ?thesis
    proof (cases "due_date c")
      case None
      with Some db show ?thesis by (simp add: handle_offline_fallback_def)
    next
      case (Some due)
      with \<open>get_by_qr_code (store s) qr = Some c\<close> db show ?thesis
        by (cases due) (auto simp: handle_offline_fallback_def split: bool.splits)
    qed
  qed
next
  show "get_by_qr_code (store s) qr = None \<longrightarrow> snd (handle_offline_fallback s qr) = s"
    using db by (simp add: handle_offline_fallback_def)
next
  fix c
  show "has_audit_logger s \<and> fresh_uuid (store s) \<and> get_by_qr_code (store s) qr = Some c
         \<and> (\<forall>t. due_date c \<noteq> Some (Naive t)) \<longrightarrow>
           (\<exists>l. audit_logs (store (snd (handle_offline_fallback s qr))) = audit_logs (store s) @ [l]
               \<and> is_offline_action l \<and> container_id l = Some (c_id c)
               \<and> log_type l = (if fst (handle_offline_fallback s qr) then RETURN_VALID
                                else RETURN_INVALID))"
  proof (intro impI, elim conjE)
    assume al: "has_audit_logger s" and fr: "fresh_uuid (store s)"
      and c: "get_by_qr_code (store s) qr = Some c" and nv: "\<forall>t. due_date c \<noteq> Some (Naive t)"
    have mem: "\<exists>r \<in> set (containers (store s)). c_id r = c_id c"
      using find_Some_mem [of "\<lambda>x. qr_code x = qr" "containers (store s)" c] c
      by (auto simp: get_by_qr_code_def)
    note L = log_to_database_ok [OF fr mem]
    show "\<exists>l. audit_logs (store (snd (handle_offline_fallback s qr))) = audit_logs (store s) @ [l]
               \<and> is_offline_action l \<and> container_id l = Some (c_id c)
               \<and> log_type l = (if fst (handle_offline_fallback s qr) then RETURN_VALID
                                else RETURN_INVALID)"
    proof (cases "due_date c")
      case None
      with c db al show ?thesis
        by (simp add: handle_offline_fallback_def log_return_valid_def log_return_invalid_def L)
    next
      case (Some due)
      with nv obtain t where "due = Aware t" by (cases due) auto
      with Some c db al show ?thesis
        by (auto simp: handle_offline_fallback_def log_return_valid_def log_return_invalid_def L
                 split: bool.splits)
    qed
  qed
qed

text \<open>
  Claim C5: the fallback accepts iff the container exists, is returnable and has a due
  date that is null or in the future, and the outcome is audited with
  \<open>is_offline = true\<close>. The code departs from it on two inputs. A container whose due
  date was stored without a time zone (the sync stores the server's \<open>dueTime\<close> as it
  parses it) is rejected although the due date lies 100 seconds in the future: the
  comparison with the aware current time raises, and the handler of the exception
  returns \<open>False\<close> without an audit entry. A code that is not in the store is rejected
  without an audit entry.
\<close>

theorem offline_fallback_unaudited_rejections:
  "get_by_qr_code (store naive_due) ''ABCDEF''
     = Some (container1\<lparr>due_date := Some (Naive 200000000)\<rparr>)
   \<and> is_returnable (container1\<lparr>due_date := Some (Naive 200000000)\<rparr>)
   \<and> utc_now naive_due = 100000000
   \<and> has_db_manager naive_due \<and> has_audit_logger naive_due
   \<and> fst (handle_offline_fallback naive_due ''ABCDEF'') = False
   \<and> audit_logs (store (snd (handle_offline_fallback naive_due ''ABCDEF''))) = []
   \<and> get_by_qr_code (store idle) ''XXXXXX'' = None
   \<and> has_db_manager idle \<and> has_audit_logger idle
   \<and> fst (handle_offline_fallback idle ''XXXXXX'') = False
   \<and> audit_logs (store (snd (handle_offline_fallback idle ''XXXXXX''))) = []"
  by (simp add: handle_offline_fallback_def naive_due_def idle_def local_db_def container1_def
                get_by_qr_code_def utc_now_def)

section \<open>Properties of the QR validator\<close>

lemma dropWhile_full: "length (dropWhile P xs) = length xs \<Longrightarrow> dropWhile P xs = xs"
proof (cases xs)
  case Nil then show ?thesis by simp
next
  case (Cons x ys)
  assume l: "length (dropWhile P xs) = length xs"
  show ?thesis
  proof (cases "P x")
    case True
    then have "length (dropWhile P xs) \<le> length ys"
      using Cons length_dropWhile_le [of P ys] by simp
    with l Cons show ?thesis by simp
  next
    case False
    with Cons show ?thesis by simp
  qed
qed

lemma b32_alphabet_chars:
  "\<forall>c \<in> set b32_alphabet. upper_char c = c \<and> in_hash_class c"
  by (simp add: b32_alphabet_def cps_def upper_char_def in_hash_class_def ascii_upper_def Let_def)

lemma code_alphabet_chars:
  "\<forall>c \<in> set code_alphabet. upper_char c = c \<and> in_code_class c \<and> encodable c"
  by (simp add: code_alphabet_def cps_def upper_char_def in_code_class_def ascii_upper_def
                encodable_def Let_def)

lemma hash_class_not_space: "in_hash_class c \<Longrightarrow> \<not> is_space c \<and> c \<noteq> newline"
  by (auto simp: in_hash_class_def is_space_def ascii_upper_def newline_def Let_def
           split: if_splits)

lemma quintet_chars: "set (quintet a b c d e) \<subseteq> set b32_alphabet"
proof -
  have "\<And>k. b32_alphabet ! (k mod 32) \<in> set b32_alphabet"
    by (rule nth_mem) (simp add: b32_alphabet_def cps_def)
  then show ?thesis by (auto simp: quintet_def Let_def)
qed

lemma quintet_length: "length (quintet a b c d e) = 8"
  by (simp add: quintet_def Let_def)

lemma long_list:
  assumes "5 \<le> length ds"
  shows "\<exists>a b c d e rest. ds = a # b # c # d # e # rest"
  using assms by (auto simp: Suc_le_length_iff numeral_eq_Suc)

lemma take6_b32encode:
  assumes "5 \<le> length ds"
  shows "length (take 6 (b32encode ds)) = 6 \<and> set (take 6 (b32encode ds)) \<subseteq> set b32_alphabet"
proof -
  from long_list [OF assms] obtain a b c d e rest where ds: "ds = a # b # c # d # e # rest"
    by blast
  have "take 6 (b32encode ds) = take 6 (quintet a b c d e)"
    by (simp add: ds quintet_length)
  moreover have "set (take 6 (quintet a b c d e)) \<subseteq> set b32_alphabet"
    using quintet_chars [of a b c d e] set_take_subset [of 6 "quintet a b c d e"] by blast
  ultimately show ?thesis by (simp add: quintet_length)
qed

lemma expected_hash_props:
  assumes H: "\<And>k m. length (H k m) = 32"
    and E: "generate_hmac_hash H key code = Some E"
  shows "length E = 6" and "\<forall>c \<in> set E. upper_char c = c \<and> in_hash_class c"
proof -
  from E obtain kb cb where g: "E = upper (take 6 (b32encode (H kb cb)))"
    by (auto simp: generate_hmac_hash_def hash_length_def Let_def split: Option.bind_splits)
  let ?t = "take 6 (b32encode (H kb cb))"
  have "5 \<le> length (H kb cb)" using H [of kb cb] by simp
  from take6_b32encode [OF this] have l: "length ?t = 6" and s: "set ?t \<subseteq> set b32_alphabet"
    by simp_all
  have u: "map upper_char ?t = ?t"
    using s b32_alphabet_chars by (intro map_idI) auto
  have e: "E = ?t" using g u by (simp add: upper_def)
  show "length E = 6" using e l by simp
  show "\<forall>c \<in> set E. upper_char c = c \<and> in_hash_class c"
    using e s b32_alphabet_chars by auto
qed

lemma expected_hash_exists:
  assumes "list_all encodable key" "set code \<subseteq> set code_alphabet"
  shows "\<exists>E. generate_hmac_hash H key code = Some E"
proof -
  have "list_all encodable code"
    using assms(2) code_alphabet_chars by (auto simp: list_all_iff)
  then show ?thesis
    using assms(1) by (simp add: generate_hmac_hash_def utf8_def Let_def)
qed

lemma split_last_append: "length ys = n \<Longrightarrow> split_last n (xs @ ys) = (xs, ys)"
  by (simp add: split_last_def)

lemma strip_url:
  assumes "p \<noteq> []" "\<not> is_space (hd p)" "\<not> is_space (last p)"
  shows "strip (p @ h) = p @ rev (dropWhile is_space (rev h))"
proof -
  obtain x xs where p: "p = x # xs" using assms(1) by (cases p) auto
  have front: "dropWhile is_space (p @ h) = p @ h" using assms(2) p by simp
  have lastp: "dropWhile is_space (rev p) = rev p"
    using assms(1,3) by (cases "rev p") (auto simp: last_rev hd_rev dest: arg_cong [of _ _ hd])
  have "dropWhile is_space (rev h @ rev p) = dropWhile is_space (rev h) @ rev p"
    using lastp by (simp add: dropWhile_append)
  then show ?thesis by (simp add: strip_def front)
qed

lemma url_match_six:
  assumes "length code = 6" "length h = 6" "last h \<noteq> newline"
  shows "url_pattern_match (construct_url code h) =
           (if list_all in_hash_class h \<and> list_all in_code_class code
            then Some (code, h) else None)"
proof -
  have hne: "h \<noteq> []" using assms(2) by auto
  let ?U = "(((cps ''https'' @ cps ''://paka.eco/QR/'') @ code) @ cps ''/'') @ h"
  have U: "construct_url code h = ?U" by (simp add: construct_url_def url_prefix_def cps_def)
  have body: "(if ?U \<noteq> [] \<and> last ?U = newline then butlast ?U else ?U) = ?U"
    using hne assms(3) by simp
  have s1: "split_last 6 ?U = (((cps ''https'' @ cps ''://paka.eco/QR/'') @ code) @ cps ''/'', h)"
    by (rule split_last_append [OF assms(2)])
  have s2: "split_last 1 (((cps ''https'' @ cps ''://paka.eco/QR/'') @ code) @ cps ''/'')
              = ((cps ''https'' @ cps ''://paka.eco/QR/'') @ code, cps ''/'')"
    by (rule split_last_append) (simp add: cps_def)
  have s3: "split_last 6 ((cps ''https'' @ cps ''://paka.eco/QR/'') @ code)
              = (cps ''https'' @ cps ''://paka.eco/QR/'', code)"
    by (rule split_last_append [OF assms(1)])
  have s4: "split_last 15 (cps ''https'' @ cps ''://paka.eco/QR/'')
              = (cps ''https'', cps ''://paka.eco/QR/'')"
    by (rule split_last_append) (simp add: cps_def)
  have sch: "scheme_ok (cps ''https'')"
    by (simp add: scheme_ok_def split_last_def ci_eq_def ci_match_def ascii_upper_def cps_def)
  have lit: "ci_eq (cps ''://paka.eco/QR/'') ''://paka.eco/QR/''"
    by (simp add: ci_eq_def ci_match_def cps_def list_all2_same)
  show ?thesis
    unfolding U url_pattern_match_def body Let_def s1 s2 s3 s4 prod.case
    using assms(1,2) sch lit by simp
qed

lemma slash_not_hash: "\<not> in_hash_class 47"
  by (simp add: in_hash_class_def ascii_upper_def Let_def)

lemma url_match_short:
  assumes "length h < 6" "h \<noteq> [] \<longrightarrow> \<not> is_space (last h)"
  shows "url_pattern_match (construct_url code h) = None"
proof -
  let ?P = "url_prefix @ code"
  let ?U = "?P @ cps ''/'' @ h"
  have U: "construct_url code h = ?U" by (simp add: construct_url_def)
  have nl: "is_space newline" by (simp add: is_space_def newline_def)
  have lastU: "last ?U \<noteq> newline"
  proof (cases "h = []")
    case True then show ?thesis by (simp add: newline_def cps_def)
  next
    case False
    then have "last ?U = last h" by simp
    with False assms(2) nl show ?thesis by auto
  qed
  have body: "(if ?U \<noteq> [] \<and> last ?U = newline then butlast ?U else ?U) = ?U"
    using lastU by simp
  have "length ?U - 6 \<le> length ?P" using assms(1) by (simp add: cps_def)
  then have "drop (length ?U - 6) ?U = drop (length ?U - 6) ?P @ cps ''/'' @ h"
    by simp
  then have "47 \<in> set (drop (length ?U - 6) ?U)" by (simp add: cps_def)
  then have "\<not> list_all in_hash_class (snd (split_last 6 ?U))"
    using slash_not_hash by (auto simp: split_last_def list_all_iff)
  then show ?thesis
    unfolding U url_pattern_match_def body Let_def
    by (simp add: case_prod_beta)
qed

lemma url_prefix_ends:
  "url_prefix @ code @ cps ''/'' \<noteq> []" "\<not> is_space (hd (url_prefix @ code @ cps ''/''))"
  "\<not> is_space (last (url_prefix @ code @ cps ''/''))"
  by (simp_all add: url_prefix_def cps_def is_space_def)

lemma strip_construct_url:
  "strip (construct_url code h) = construct_url code (rev (dropWhile is_space (rev h)))"
  using strip_url [OF url_prefix_ends, of code h] by (simp add: construct_url_def)

lemma construct_url_not_empty: "construct_url code h \<noteq> []"
  by (simp add: construct_url_def url_prefix_def cps_def)

lemma upper_code: "set code \<subseteq> set code_alphabet \<Longrightarrow> upper code = code"
  using code_alphabet_chars by (auto simp: upper_def intro: map_idI)

lemma code_in_class: "set code \<subseteq> set code_alphabet \<Longrightarrow> list_all in_code_class code"
  using code_alphabet_chars by (auto simp: list_all_iff)

text \<open>
  A hash of six characters of the hash class is neither stripped nor cut short: the URL
  is parsed into the code and the upper-cased hash.
\<close>

lemma parse_accepted_hash:
  assumes code: "length code = 6" "set code \<subseteq> set code_alphabet"
    and h: "length h = 6" "list_all in_hash_class h"
  shows "strip (construct_url code h) = construct_url code h"
    and "parse_scanned_url (construct_url code h) = Some (code, upper h)"
proof -
  have hne: "h \<noteq> []" using h(1) by auto
  then have "in_hash_class (last h)" using h(2) last_in_set by (auto simp: list_all_iff)
  then have lh: "\<not> is_space (last h)" and nl: "last h \<noteq> newline"
    using hash_class_not_space by blast+
  have tr: "rev (dropWhile is_space (rev h)) = h"
    using hne lh by (cases "rev h") (auto simp: last_rev dest: arg_cong [of _ _ hd])
  show s: "strip (construct_url code h) = construct_url code h"
    by (simp add: strip_construct_url tr)
  show "parse_scanned_url (construct_url code h) = Some (code, upper h)"
    using construct_url_not_empty [of code h]
    by (simp add: parse_scanned_url_def s url_match_six [OF code(1) h(1) nl]
                  upper_code [OF code(2)] code_in_class [OF code(2)] h(2))
qed

text \<open>
  Any other hash of six characters either makes the pattern fail or, when it is of the
  hash class, is parsed as above.
\<close>

lemma parse_other_hash:
  assumes code: "length code = 6" "set code \<subseteq> set code_alphabet" and h: "length h = 6"
  shows "parse_scanned_url (strip (construct_url code h)) = None
       \<or> (list_all in_hash_class h
          \<and> parse_scanned_url (strip (construct_url code h)) = Some (code, upper h))"
proof -
  let ?h' = "rev (dropWhile is_space (rev h))"
  have s: "strip (construct_url code h) = construct_url code ?h'"
    by (rule strip_construct_url)
  have s2: "strip (construct_url code ?h') = construct_url code ?h'"
    by (simp add: strip_construct_url dropWhile_idem)
  have len: "length ?h' \<le> 6" using h length_dropWhile_le [of is_space "rev h"] by simp
  have nsp: "?h' \<noteq> [] \<longrightarrow> \<not> is_space (last ?h')"
    using hd_dropWhile [of is_space "rev h"] by (auto simp: last_rev)
  show ?thesis
  proof (cases "length ?h' = 6")
    case True
    then have "length (dropWhile is_space (rev h)) = length (rev h)" using h by simp
    then have "dropWhile is_space (rev h) = rev h" by (rule dropWhile_full)
    then have eq: "?h' = h" by simp
    have "h \<noteq> []" using h by auto
    moreover have "is_space newline" by (simp add: is_space_def newline_def)
    ultimately have nl: "last h \<noteq> newline" using nsp eq by auto
    show ?thesis
    proof (cases "list_all in_hash_class h")
      case True
      from parse_accepted_hash [OF code h True] True show ?thesis by simp
    next
      case False
      then have "url_pattern_match (construct_url code h) = None"
        by (simp add: url_match_six [OF code(1) h nl])
      then have "parse_scanned_url (construct_url code h) = None"
        using s s2 eq by (simp add: parse_scanned_url_def)
      then show ?thesis using s eq by simp
    qed
  next
    case False
    with len have "length ?h' < 6" by simp
    from url_match_short [OF this nsp, of code]
    have "parse_scanned_url (construct_url code ?h') = None"
      using s2 by (simp add: parse_scanned_url_def)
    then show ?thesis using s by simp
  qed
qed

lemma upt8: "[0..<8] = [0, 1, 2, 3, 4, 5, 6, 7::nat]"
  by (simp add: upt_rec)

lemma q1: "quintet 207 226 116 23 138 = cps ''Z7RHIF4K''"
  by (simp add: quintet_def Let_def b32_alphabet_def upt8 cps_def)

lemma g1:
  "generate_hmac_hash hmac_example (cps ''default_key'') (cps ''ABCDEF'') = Some (cps ''Z7RHIF'')"
proof -
  have "take 6 (b32encode digest_default_key_ABCDEF) = cps ''Z7RHIF''"
    by (simp add: digest_default_key_ABCDEF_def q1) (simp add: cps_def)
  then show ?thesis
    by (simp add: generate_hmac_hash_def hmac_example_def hash_length_def Let_def utf8_def
                  encodable_def cps_def upper_def upper_char_def)
qed

lemma example_code: "length (cps ''ABCDEF'') = 6" "set (cps ''ABCDEF'') \<subseteq> set code_alphabet"
  by (simp_all add: code_alphabet_def cps_def)

lemma c1:
  "construct_url (cps ''ABCDEF'') (cps ''z7rhif'') = cps ''https://paka.eco/QR/ABCDEF/z7rhif''"
  by (simp add: construct_url_def url_prefix_def cps_def)

text \<open>
  Claim C4, as stated, fails for a hash that differs from the expected one only in the
  case of its letters: the pattern is matched ignoring case and the hash is upper-cased
  before the comparison. With the key \<open>default_key\<close> the expected hash of \<open>ABCDEF\<close> is
  \<open>Z7RHIF\<close>, and the URL with the hash \<open>z7rhif\<close> is validated.
\<close>

theorem lower_case_hash_counterexample:
  "generate_hmac_hash hmac_example (cps ''default_key'') (cps ''ABCDEF'') = Some (cps ''Z7RHIF'')
   \<and> cps ''z7rhif'' \<noteq> cps ''Z7RHIF''
   \<and> validation (process_qr_code hmac_example (cps ''default_key'')
                   (cps ''https://paka.eco/QR/ABCDEF/z7rhif'')) = VALID
   \<and> \<not> is_fraud_attempt (process_qr_code hmac_example (cps ''default_key'')
                            (cps ''https://paka.eco/QR/ABCDEF/z7rhif''))"
proof -
  have hc: "list_all in_hash_class (cps ''z7rhif'')"
    by (simp add: cps_def in_hash_class_def ascii_upper_def)
  have u: "upper (cps ''z7rhif'') = cps ''Z7RHIF''"
    by (simp add: cps_def upper_def upper_char_def)
  have l: "length (cps ''z7rhif'') = 6" by (simp add: cps_def)
  note P = parse_accepted_hash [OF example_code l hc]
  have "process_qr_code hmac_example (cps ''default_key'')
          (construct_url (cps ''ABCDEF'') (cps ''z7rhif''))
      = \<lparr> scanned_qr_code = construct_url (cps ''ABCDEF'') (cps ''z7rhif''),
          validation = VALID, result_container_id = Some (cps ''ABCDEF''), error_message = None,
          is_fraud_attempt = False, parsed_url = Some (cps ''ABCDEF'', cps ''Z7RHIF'') \<rparr>"
    using P by (simp add: process_qr_code_def g1 u Let_def)
  then have "validation (process_qr_code hmac_example (cps ''default_key'')
                   (cps ''https://paka.eco/QR/ABCDEF/z7rhif'')) = VALID
   \<and> \<not> is_fraud_attempt (process_qr_code hmac_example (cps ''default_key'')
                            (cps ''https://paka.eco/QR/ABCDEF/z7rhif''))"
    unfolding c1 by simp
  moreover have "cps ''z7rhif'' \<noteq> cps ''Z7RHIF''" by (simp add: cps_def)
  ultimately show ?thesis using g1 by blast
qed

text \<open>
  Claim C4, amended. For every 6-character code over the alphabet A-HJ-NP-Z2-9 and every
  key that can be encoded, with a 32-byte HMAC-SHA256 digest, let HASH be the expected
  hash: the first 6 characters of the upper-cased Base32 encoding of the digest.
  Processing the URL \<open>https://paka.eco/QR/CODE/HASH\<close> gives the result VALID with
  \<open>container_id = CODE\<close> and no fraud flag. A provided hash is compared after
  upper-casing: every 6-character hash that the hash group of the pattern accepts and
  whose upper-cased form is HASH gives the same VALID result, and every other
  6-character hash gives \<open>fraud_attempt\<close> with the fraud flag set.
\<close>

theorem qr_validation:
  assumes H: "\<And>k m. length (H k m) = 32"
    and code: "length code = 6" "set code \<subseteq> set code_alphabet"
    and E: "generate_hmac_hash H key code = Some E"
  shows "validation (process_qr_code H key (construct_url code E)) = VALID
       \<and> result_container_id (process_qr_code H key (construct_url code E)) = Some code
       \<and> \<not> is_fraud_attempt (process_qr_code H key (construct_url code E))
       \<and> (\<forall>h. length h = 6 \<longrightarrow>
            (if list_all in_hash_class h \<and> upper h = E
             then validation (process_qr_code H key (construct_url code h)) = VALID
                  \<and> result_container_id (process_qr_code H key (construct_url code h))
                      = Some code
                  \<and> \<not> is_fraud_attempt (process_qr_code H key (construct_url code h))
             else validation (process_qr_code H key (construct_url code h)) = FRAUD_ATTEMPT
                  \<and> is_fraud_attempt (process_qr_code H key (construct_url code h))))"
proof -
  note EP = expected_hash_props [of H key code E, OF H E]
  have accepted: "process_qr_code H key (construct_url code h)
      = \<lparr> scanned_qr_code = construct_url code h,
          validation = VALID, result_container_id = Some code, error_message = None,
          is_fraud_attempt = False, parsed_url = Some (code, E) \<rparr>"
    if "length h = 6" "list_all in_hash_class h" "upper h = E" for h
    using parse_accepted_hash [OF code that(1,2)] that(3) E
    by (simp add: process_qr_code_def Let_def)
  have rejected: "validation (process_qr_code H key (construct_url code h)) = FRAUD_ATTEMPT
                \<and> is_fraud_attempt (process_qr_code H key (construct_url code h))"
    if "length h = 6" "\<not> (list_all in_hash_class h \<and> upper h = E)" for h
    using parse_other_hash [OF code that(1)] that(2) E
    by (auto simp: process_qr_code_def Let_def)
  have EE: "list_all in_hash_class E" "upper E = E"
    using EP(2) by (auto simp: list_all_iff upper_def intro: map_idI)
  from accepted [OF EP(1) EE]
  have first: "validation (process_qr_code H key (construct_url code E)) = VALID
       \<and> result_container_id (process_qr_code H key (construct_url code E)) = Some code
       \<and> \<not> is_fraud_attempt (process_qr_code H key (construct_url code E))"
    by simp
  have second: "\<forall>h. length h = 6 \<longrightarrow>
            (if list_all in_hash_class h \<and> upper h = E
             then validation (process_qr_code H key (construct_url code h)) = VALID
                  \<and> result_container_id (process_qr_code H key (construct_url code h))
                      = Some code
                  \<and> \<not> is_fraud_attempt (process_qr_code H key (construct_url code h))
             else validation (process_qr_code H key (construct_url code h)) = FRAUD_ATTEMPT
                  \<and> is_fraud_attempt (process_qr_code H key (construct_url code h)))"
  proof (intro allI impI)
    fix h :: pystr
    assume l: "length h = 6"
    show "if list_all in_hash_class h \<and> upper h = E
             then validation (process_qr_code H key (construct_url code h)) = VALID
                  \<and> result_container_id (process_qr_code H key (construct_url code h))
                      = Some code
                  \<and> \<not> is_fraud_attempt (process_qr_code H key (construct_url code h))
             else validation (process_qr_code H key (construct_url code h)) = FRAUD_ATTEMPT
                  \<and> is_fraud_attempt (process_qr_code H key (construct_url code h))"
    proof (cases "list_all in_hash_class h \<and> upper h = E")
      case True
      with accepted [OF l] show ?thesis by simp
    next
      case False
      with rejected [OF l] show ?thesis by simp
    qed
  qed
  from first second show ?thesis by blast
qed

text \<open>
  The instance with the key \<open>default_key\<close> and the code \<open>ABCDEF\<close>: the expected hash
  \<open>Z7RHIF\<close>, its lower-case spelling and its spelling with the dotless i (U+0131) are
  accepted; \<open>ZZZZZZ\<close> and the spelling with the dotted capital i (U+0130), which
  \<open>str.upper\<close> leaves as it is, are fraud attempts.
\<close>

theorem qr_validation_witness:
  "(\<forall>k m. length (hmac_example k m) = 32)
   \<and> length (cps ''ABCDEF'') = 6 \<and> set (cps ''ABCDEF'') \<subseteq> set code_alphabet
   \<and> generate_hmac_hash hmac_example (cps ''default_key'') (cps ''ABCDEF'')
       = Some (cps ''Z7RHIF'')
   \<and> validation (process_qr_code hmac_example (cps ''default_key'')
                   (construct_url (cps ''ABCDEF'') (cps ''Z7RHIF''))) = VALID
   \<and> result_container_id (process_qr_code hmac_example (cps ''default_key'')
                   (construct_url (cps ''ABCDEF'') (cps ''Z7RHIF''))) = Some (cps ''ABCDEF'')
   \<and> validation (process_qr_code hmac_example (cps ''default_key'')
                   (construct_url (cps ''ABCDEF'') (cps ''z7rhif''))) = VALID
   \<and> validation (process_qr_code hmac_example (cps ''default_key'')
                   (construct_url (cps ''ABCDEF'') [90, 55, 82, 72, 0x131, 70])) = VALID
   \<and> validation (process_qr_code hmac_example (cps ''default_key'')
                   (construct_url (cps ''ABCDEF'') (cps ''ZZZZZZ''))) = FRAUD_ATTEMPT
   \<and> validation (process_qr_code hmac_example (cps ''default_key'')
                   (construct_url (cps ''ABCDEF'') [90, 55, 82, 72, 0x130, 70])) = FRAUD_ATTEMPT"
proof -
  have a: "\<And>k m. length (hmac_example k m) = 32"
    by (simp add: hmac_example_def digest_default_key_ABCDEF_def)
  note T = qr_validation [of hmac_example "cps ''ABCDEF''" "cps ''default_key''" "cps ''Z7RHIF''",
                          OF a example_code g1]
  from T have all: "\<And>h. length h = 6 \<Longrightarrow>
            (if list_all in_hash_class h \<and> upper h = cps ''Z7RHIF''
             then validation (process_qr_code hmac_example (cps ''default_key'')
                                (construct_url (cps ''ABCDEF'') h)) = VALID
             else validation (process_qr_code hmac_example (cps ''default_key'')
                                (construct_url (cps ''ABCDEF'') h)) = FRAUD_ATTEMPT)"
    by presburger
  have v1: "validation (process_qr_code hmac_example (cps ''default_key'')
                   (construct_url (cps ''ABCDEF'') (cps ''z7rhif''))) = VALID"
    using all [of "cps ''z7rhif''"]
    by (simp add: cps_def in_hash_class_def ascii_upper_def upper_def upper_char_def)
  have v2: "validation (process_qr_code hmac_example (cps ''default_key'')
                   (construct_url (cps ''ABCDEF'') [90, 55, 82, 72, 0x131, 70])) = VALID"
    using all [of "[90, 55, 82, 72, 0x131, 70]"]
    by (simp add: cps_def in_hash_class_def ascii_upper_def upper_def upper_char_def)
  have f1: "validation (process_qr_code hmac_example (cps ''default_key'')
                   (construct_url (cps ''ABCDEF'') (cps ''ZZZZZZ''))) = FRAUD_ATTEMPT"
    using all [of "cps ''ZZZZZZ''"]
    by (simp add: cps_def in_hash_class_def ascii_upper_def upper_def upper_char_def)
  have f2: "validation (process_qr_code hmac_example (cps ''default_key'')
                   (construct_url (cps ''ABCDEF'') [90, 55, 82, 72, 0x130, 70])) = FRAUD_ATTEMPT"
    using all [of "[90, 55, 82, 72, 0x130, 70]"]
    by (simp add: cps_def in_hash_class_def ascii_upper_def upper_def upper_char_def)
  from T a example_code g1 v1 v2 f1 f2 show ?thesis by blast
qed
end
